theory Spec2Isabelle
  imports Complex_Main "HOL-Library.Sublist"
begin

section \<open>Python values, exceptions and effects\<close>

text \<open>
  The repository is Python glue around external collaborators (meerkat, numpy, ray,
  terra, nltk and the domino library). Exceptions are values of \<open>pyerr\<close>; a computation
  that may raise returns \<open>pyerr + 'a\<close> with \<open>Inl\<close> for the exception. The message of
  an exception is carried where the source text fixes it; the messages of exceptions raised
  by the interpreter itself are abbreviated.
\<close>

datatype pyerr =
    TypeError
  | ValueError string
  | KeyError string
  | IndexError
  | LookupError
  | AttributeError string
  | CorrelationImpossibleError string
  | OtherError string

text \<open>\<open>except LookupError\<close> also catches the builtin subclasses KeyError and IndexError.\<close>

fun isinstance_LookupError :: "pyerr \<Rightarrow> bool" where
  "isinstance_LookupError LookupError = True"
| "isinstance_LookupError (KeyError _) = True"
| "isinstance_LookupError IndexError = True"
| "isinstance_LookupError _ = False"

text \<open>
  Dynamically typed values that the code stores and passes on without computing with
  them. A float is idealised as a rational number.
\<close>

datatype pyval = PyNone | PyBool bool | PyInt int | PyFloat rat | PyStr string

text \<open>
  An effectful computation yields its outcome together with the external calls
  it made, in order: \<open>'e\<close> is the type of call events.
\<close>

type_synonym ('e, 'a) eff = "(pyerr + 'a) \<times> 'e list"

definition ereturn :: "'a \<Rightarrow> ('e, 'a) eff" where
  "ereturn x = (Inr x, [])"

text \<open>A pure step that may raise: no external call is made.\<close>

definition elift :: "pyerr + 'a \<Rightarrow> ('e, 'a) eff" where
  "elift r = (r, [])"

text \<open>An external call: the event is recorded, the outcome is the collaborator's.\<close>

definition ecall :: "'e \<Rightarrow> pyerr + 'a \<Rightarrow> ('e, 'a) eff" where
  "ecall ev outcome = (outcome, [ev])"

text \<open>Sequencing: an exception ends the computation, the calls made so far are kept.\<close>

definition ebind :: "('e, 'a) eff \<Rightarrow> ('a \<Rightarrow> ('e, 'b) eff) \<Rightarrow> ('e, 'b) eff" where
  "ebind m f =
     (case m of
        (Inl e, tr) \<Rightarrow> (Inl e, tr)
      | (Inr x, tr) \<Rightarrow> (case f x of (r, tr') \<Rightarrow> (r, tr @ tr')))"

text \<open>
  \<open>try: m  except ...: handler\<close> followed by the code after the statement: the handler
  returns \<open>None\<close> for an exception its \<open>except\<close> clause does not match (it propagates),
  and otherwise the computation that replaces the rest of the \<open>try\<close> body.
\<close>

definition etry ::
  "('e, 'a) eff \<Rightarrow> (pyerr \<Rightarrow> ('e, 'b) eff option) \<Rightarrow> ('a \<Rightarrow> ('e, 'b) eff) \<Rightarrow> ('e, 'b) eff" where
  "etry m handler f =
     (case m of
        (Inl e, tr) \<Rightarrow>
          (case handler e of
             None \<Rightarrow> (Inl e, tr)
           | Some k \<Rightarrow> (case k of (r, tr') \<Rightarrow> (r, tr @ tr')))
      | (Inr x, tr) \<Rightarrow> (case f x of (r, tr') \<Rightarrow> (r, tr @ tr')))"

text \<open>\<open>list(map(f, xs))\<close>: left to right, the first exception ends it.\<close>

fun map_raise :: "('a \<Rightarrow> pyerr + 'b) \<Rightarrow> 'a list \<Rightarrow> pyerr + 'b list" where
  "map_raise f [] = Inr []"
| "map_raise f (x # xs) =
     (case f x of
        Inl e \<Rightarrow> Inl e
      | Inr y \<Rightarrow> (case map_raise f xs of Inl e \<Rightarrow> Inl e | Inr ys \<Rightarrow> Inr (y # ys)))"

subsection \<open>\<open>int(os.path.basename(run_dir))\<close>\<close>

text \<open>
  \<open>posixpath.basename\<close>: the part after the last slash. \<open>run_dir\<close> defaults to
  \<open>None\<close>, on which \<open>os.path.basename\<close> raises TypeError.
\<close>

definition basename :: "string \<Rightarrow> string" where
  "basename p = rev (takeWhile (\<lambda>c. c \<noteq> CHR ''/'') (rev p))"

text \<open>
  \<open>int(s)\<close> for an ASCII string: surrounding whitespace is skipped, then an optional
  sign, then decimal digits, where single underscores may stand between digits. (The
  limit on the number of digits of recent interpreters is not modelled.)
\<close>

definition is_space :: "char \<Rightarrow> bool" where
  "is_space c = ((of_char c :: nat) \<in> {9, 10, 11, 12, 13, 32})"

definition is_digit :: "char \<Rightarrow> bool" where
  "is_digit c = (48 \<le> (of_char c :: nat) \<and> (of_char c :: nat) \<le> 57)"

definition digit_val :: "char \<Rightarrow> nat" where
  "digit_val c = of_char c - 48"

fun digits_val :: "nat \<Rightarrow> string \<Rightarrow> nat option" where
  "digits_val acc [] = Some acc"
| "digits_val acc [c] = (if is_digit c then Some (10 * acc + digit_val c) else None)"
| "digits_val acc (c # d # cs) =
     (if is_digit c then digits_val (10 * acc + digit_val c) (d # cs)
      else if c = CHR ''_'' \<and> is_digit d then digits_val acc (d # cs)
      else None)"

definition py_int :: "string \<Rightarrow> pyerr + int" where
  "py_int s =
     (let t = rev (dropWhile is_space (rev (dropWhile is_space s)));
          (neg, u) =
            (case t of
               [] \<Rightarrow> (False, t)
             | c # cs \<Rightarrow>
                 if c = CHR ''-'' then (True, cs)
                 else if c = CHR ''+'' then (False, cs)
                 else (False, t))
      in case (case u of
                 [] \<Rightarrow> None
               | c # _ \<Rightarrow> if is_digit c then digits_val 0 u else None) of
           None \<Rightarrow> Inl (ValueError ''invalid literal for int() with base 10'')
         | Some n \<Rightarrow> Inr (if neg then - int n else int n))"

definition run_id_of :: "string option \<Rightarrow> pyerr + int" where
  "run_id_of run_dir =
     (case run_dir of
        None \<Rightarrow> Inl TypeError
      | Some d \<Rightarrow> py_int (basename d))"

section \<open>The meerkat DataPanel, as far as the code uses it\<close>

text \<open>
  A DataPanel is a table: named columns and rows, each row holding one cell per column,
  in the order of \<open>columns\<close>.
\<close>

record datapanel =
  columns :: "string list"
  rows :: "pyval list list"

fun index_of :: "'a \<Rightarrow> 'a list \<Rightarrow> nat option" where
  "index_of x [] = None"
| "index_of x (y # ys) = (if x = y then Some 0 else map_option Suc (index_of x ys))"

text \<open>\<open>dp[name].data\<close>: the cells of one column; KeyError when there is no such column.\<close>

definition getitem_column :: "datapanel \<Rightarrow> string \<Rightarrow> pyerr + pyval list" where
  "getitem_column dp name =
     (case index_of name (columns dp) of
        None \<Rightarrow> Inl (KeyError name)
      | Some k \<Rightarrow> Inr (map (\<lambda>r. r ! k) (rows dp)))"

text \<open>\<open>dp.lz[mask]\<close> for a boolean mask with one entry per row: the rows marked True.\<close>

definition lz_mask :: "datapanel \<Rightarrow> bool list \<Rightarrow> datapanel" where
  "lz_mask dp bs = dp\<lparr>rows := map snd (filter fst (zip bs (rows dp)))\<rparr>"

text \<open>
  \<open>dp.lz[indices]\<close> for integer indices: the rows at these positions, a negative index
  counting from the end; IndexError out of range.
\<close>

definition row_at :: "datapanel \<Rightarrow> int \<Rightarrow> pyerr + pyval list" where
  "row_at dp i =
     (let n = int (length (rows dp)); j = (if i < 0 then n + i else i)
      in if 0 \<le> j \<and> j < n then Inr (rows dp ! nat j) else Inl IndexError)"

definition lz_indices :: "datapanel \<Rightarrow> int list \<Rightarrow> pyerr + datapanel" where
  "lz_indices dp indices =
     (case map_raise (row_at dp) indices of
        Inl e \<Rightarrow> Inl e
      | Inr rs \<Rightarrow> Inr (dp\<lparr>rows := rs\<rparr>))"

text \<open>\<open>dp[cols]\<close> for a list of names: these columns, in this order; KeyError for a missing one.\<close>

definition getitem_columns :: "datapanel \<Rightarrow> string list \<Rightarrow> pyerr + datapanel" where
  "getitem_columns dp cols =
     (case map_raise (\<lambda>c. case index_of c (columns dp) of
                             None \<Rightarrow> Inl (KeyError c)
                           | Some k \<Rightarrow> Inr k) cols of
        Inl e \<Rightarrow> Inl e
      | Inr ks \<Rightarrow> Inr \<lparr>columns = cols, rows = map (\<lambda>r. map (\<lambda>k. r ! k) ks) (rows dp)\<rparr>)"

section \<open>\<open>scratch/sabri/archive/21-07/train.py\<close>\<close>

type_synonym metadata = "(string \<times> pyval) list"

type_synonym kwargs = "(string \<times> pyval) list"

subsection \<open>\<open>train_model\<close>\<close>

text \<open>
  The collaborators \<open>induce_correlation\<close> (domino.evaluate.linear) and \<open>train\<close>
  (domino.vision) are parameters: each maps the arguments of a call to its outcome.
\<close>

record induce_call =
  induce_dp :: datapanel
  induce_corr :: pyval
  induce_attr_a :: string
  induce_attr_b :: string
  induce_n :: pyval
  induce_match_mu :: bool

record train_call =
  train_dp :: datapanel
  train_input_column :: string
  train_id_column :: string
  train_target_column :: string
  train_run_dir :: "string option"
  train_wandb_config :: metadata
  train_kwargs :: kwargs

datatype train_event =
    Call_induce_correlation induce_call
  | Call_print pyerr
  | Call_train train_call

record train_env =
  induce_correlation :: "induce_call \<Rightarrow> pyerr + int list"
  train :: "train_call \<Rightarrow> pyerr + unit"

text \<open>\<open>target, correlate = target_correlate\<close>: ValueError unless there are two items.\<close>

definition unpack_pair :: "string list \<Rightarrow> pyerr + string \<times> string" where
  "unpack_pair xs =
     (case xs of
        [a, b] \<Rightarrow> Inr (a, b)
      | _ \<Rightarrow> Inl (ValueError ''wrong number of values to unpack''))"

definition make_metadata :: "string \<Rightarrow> string \<Rightarrow> pyval \<Rightarrow> pyval \<Rightarrow> int \<Rightarrow> metadata" where
  "make_metadata target correlate corr num_examples run_id =
     [(''target'', PyStr target),
      (''correlate'', PyStr correlate),
      (''corr'', corr),
      (''num_examples'', num_examples),
      (''run_id'', PyInt run_id)]"

text \<open>
  The result is \<open>None\<close> for the bare \<open>return\<close> of the \<open>except\<close> branch and
  \<open>Some metadata\<close> for \<open>return metadata\<close>.
\<close>

definition train_model ::
  "train_env \<Rightarrow> datapanel \<Rightarrow> string list \<Rightarrow> pyval \<Rightarrow> pyval \<Rightarrow> string \<Rightarrow> string \<Rightarrow>
   string option \<Rightarrow> kwargs \<Rightarrow> (train_event, metadata option) eff" where
  "train_model env dp target_correlate corr num_examples input_column id_column run_dir kw =
     ebind (elift (unpack_pair target_correlate)) (\<lambda>(target, correlate).
     ebind (elift (run_id_of run_dir)) (\<lambda>run_id.
       let metadata = make_metadata target correlate corr num_examples run_id;
           ic = \<lparr>induce_dp = dp, induce_corr = corr, induce_attr_a = target,
                 induce_attr_b = correlate, induce_n = num_examples, induce_match_mu = True\<rparr>
       in etry (ecall (Call_induce_correlation ic) (induce_correlation env ic))
            (\<lambda>e. case e of
                    CorrelationImpossibleError msg \<Rightarrow>
                      Some (ebind (ecall (Call_print e) (Inr ())) (\<lambda>_. ereturn None))
                  | _ \<Rightarrow> None)
            (\<lambda>indices.
               ebind (elift (lz_indices dp indices)) (\<lambda>sub.
               let tc = \<lparr>train_dp = sub, train_input_column = input_column,
                         train_id_column = id_column, train_target_column = target,
                         train_run_dir = run_dir, train_wandb_config = metadata,
                         train_kwargs = kw\<rparr>
               in ebind (ecall (Call_train tc) (train env tc)) (\<lambda>_.
                  ereturn (Some metadata))))))"

subsection \<open>\<open>score_model\<close>\<close>

text \<open>
  \<open>_get_reduction_fn\<close>: the callable is \<open>partial(torch.mean, dim=[-1, -2])\<close> in both
  branches; \<open>torch.mean\<close> is the only torch function the source refers to. The
  \<open>__name__\<close> assigned afterwards is the name passed in.
\<close>

datatype torch_fn = Torch_mean

record reduction_fn =
  partial_func :: torch_fn
  partial_dim :: "int list"
  fn_name :: string

definition get_reduction_fn :: "string \<Rightarrow> pyerr + reduction_fn" where
  "get_reduction_fn reduction_name =
     (if reduction_name = ''max'' then
        Inr \<lparr>partial_func = Torch_mean, partial_dim = [-1, -2], fn_name = reduction_name\<rparr>
      else if reduction_name = ''mean'' then
        Inr \<lparr>partial_func = Torch_mean, partial_dim = [-1, -2], fn_name = reduction_name\<rparr>
      else Inl (ValueError (''reduction_fn '' @ reduction_name @ '' not supported.'')))"

text \<open>
  Calling a reduction function on a tensor: \<open>torch_mean\<close> stands for \<open>torch.mean\<close>,
  taking the \<open>dim\<close> argument and the tensor.
\<close>

definition apply_reduction :: "(int list \<Rightarrow> 't \<Rightarrow> 't) \<Rightarrow> reduction_fn \<Rightarrow> 't \<Rightarrow> 't" where
  "apply_reduction torch_mean rf t =
     (case partial_func rf of Torch_mean \<Rightarrow> torch_mean (partial_dim rf) t)"

text \<open>\<open>split\<close> is a string or a collection of strings (\<open>isinstance(split, str)\<close>).\<close>

datatype split_arg = Split_str string | Split_collection "string list"

text \<open>\<open>dp["split"].data == split\<close>, or \<open>np.isin(dp["split"].data, split)\<close>.\<close>

definition split_mask :: "pyval list \<Rightarrow> split_arg \<Rightarrow> bool list" where
  "split_mask data split =
     (case split of
        Split_str s \<Rightarrow> map (\<lambda>v. v = PyStr s) data
      | Split_collection ss \<Rightarrow> map (\<lambda>v. v \<in> set (map PyStr ss)) data)"

record ('m, 'l) score_call =
  score_model_arg :: 'm
  score_dp :: datapanel
  score_input_column :: string
  score_id_column :: string
  score_target_column :: string
  score_run_dir :: "string option"
  score_layers :: "(string \<times> 'l) list option"
  score_wandb_config :: metadata
  score_reduction_fns :: "reduction_fn list option"
  score_kwargs :: kwargs

datatype ('m, 'l) score_event = Call_score "('m, 'l) score_call"

text \<open>
  \<open>nested_getattr\<close> (domino.utils) looks a layer up in the model by its dotted path;
  \<open>score\<close> (domino.vision) returns the scored DataPanel.
\<close>

record ('m, 'l) score_env =
  nested_getattr :: "'m \<Rightarrow> string \<Rightarrow> pyerr + 'l"
  score :: "('m, 'l) score_call \<Rightarrow> pyerr + datapanel"

text \<open>\<open>{name: nested_getattr(model, layer) for name, layer in layers.items()}\<close>\<close>

definition resolve_layers ::
  "('m, 'l) score_env \<Rightarrow> 'm \<Rightarrow> (string \<times> string) list option \<Rightarrow> pyerr + (string \<times> 'l) list option" where
  "resolve_layers env model layers =
     (case layers of
        None \<Rightarrow> Inr None
      | Some ls \<Rightarrow>
          (case map_raise (\<lambda>(name, layer).
                   case nested_getattr env model layer of
                     Inl e \<Rightarrow> Inl e
                   | Inr l \<Rightarrow> Inr (name, l)) ls of
             Inl e \<Rightarrow> Inl e
           | Inr rs \<Rightarrow> Inr (Some rs)))"

text \<open>\<open>list(map(_get_reduction_fn, reduction_fns))\<close> when \<open>reduction_fns\<close> is not None.\<close>

definition resolve_reduction_fns :: "string list option \<Rightarrow> pyerr + reduction_fn list option" where
  "resolve_reduction_fns reduction_fns =
     (case reduction_fns of
        None \<Rightarrow> Inr None
      | Some names \<Rightarrow>
          (case map_raise get_reduction_fn names of
             Inl e \<Rightarrow> Inl e
           | Inr fs \<Rightarrow> Inr (Some fs)))"

text \<open>
  \<open>list(set(score_dp.columns) - set(dp.columns))\<close>: the order in which Python lists a
  set is not fixed; the model lists the new columns in their order in \<open>score_dp\<close>, and
  the theorems below speak of them as a set.
\<close>

definition new_columns :: "datapanel \<Rightarrow> datapanel \<Rightarrow> string list" where
  "new_columns scored dp = remdups (filter (\<lambda>c. c \<notin> set (columns dp)) (columns scored))"

definition score_model ::
  "('m, 'l) score_env \<Rightarrow> datapanel \<Rightarrow> 'm \<Rightarrow> string \<Rightarrow> string \<Rightarrow> pyval \<Rightarrow> pyval \<Rightarrow> split_arg \<Rightarrow>
   string \<Rightarrow> string \<Rightarrow> (string \<times> string) list option \<Rightarrow> string list option \<Rightarrow>
   string option \<Rightarrow> kwargs \<Rightarrow> (('m, 'l) score_event, datapanel \<times> metadata) eff" where
  "score_model env dp model target correlate corr num_examples split input_column id_column
     layers reduction_fns run_dir kw =
     ebind (elift (resolve_layers env model layers)) (\<lambda>layers'.
     ebind (elift (resolve_reduction_fns reduction_fns)) (\<lambda>fns.
     ebind (elift (run_id_of run_dir)) (\<lambda>run_id.
       let metadata = make_metadata target correlate corr num_examples run_id
       in ebind (elift (getitem_column dp ''split'')) (\<lambda>data.
          let sc = \<lparr>score_model_arg = model,
                    score_dp = lz_mask dp (split_mask data split),
                    score_input_column = input_column, score_id_column = id_column,
                    score_target_column = target, score_run_dir = run_dir,
                    score_layers = layers', score_wandb_config = metadata,
                    score_reduction_fns = fns, score_kwargs = kw\<rparr>
          in ebind (ecall (Call_score sc) (score env sc)) (\<lambda>score_dp.
             let cols = [id_column, target, correlate, ''split''] @ new_columns score_dp dp
             in ebind (elift (getitem_columns score_dp cols)) (\<lambda>selected.
                ereturn (selected, metadata)))))))"

section \<open>The pipeline scripts\<close>

text \<open>
  A script is a module body: a straight sequence of calls to external collaborators.
  A call is its callee's name with its positional and keyword arguments; an argument is
  a literal of the script or a value that an earlier call returned. The environment
  gives every call its outcome. (Within one run no call is made twice with the same
  arguments, so an environment that is a function of the call loses nothing.)
\<close>

datatype arg =
    H nat
  | S string
  | I int
  | F rat
  | B bool
  | NoneArg
  | Cls string
  | L "arg list"
  | T "arg list"
  | D "(string \<times> arg) list"

text \<open>
  \<open>H\<close> is an opaque object returned by a collaborator, \<open>Cls\<close> a class passed by
  reference, \<open>L\<close>, \<open>T\<close> and \<open>D\<close> a list, a tuple and a dict; the others are literals.
\<close>

datatype call = Call string "arg list" "(string \<times> arg) list"

fun call_name :: "call \<Rightarrow> string" where
  "call_name (Call name pos kws) = name"

type_synonym script_env = "call \<Rightarrow> pyerr + arg"

definition xcall :: "script_env \<Rightarrow> call \<Rightarrow> (call, arg) eff" where
  "xcall env c = ecall c (env c)"

text \<open>\<open>print\<close> writes to standard output and returns.\<close>

definition print_call :: "arg list \<Rightarrow> (call, unit) eff" where
  "print_call xs = ecall (Call ''print'' xs []) (Inr ())"

text \<open>\<open>a, _ = value\<close>: the value must be a sequence of two items.\<close>

definition unpack2 :: "arg \<Rightarrow> pyerr + arg \<times> arg" where
  "unpack2 v =
     (case v of
        T [a, b] \<Rightarrow> Inr (a, b)
      | L [a, b] \<Rightarrow> Inr (a, b)
      | T _ \<Rightarrow> Inl (ValueError ''wrong number of values to unpack'')
      | L _ \<Rightarrow> Inl (ValueError ''wrong number of values to unpack'')
      | _ \<Rightarrow> Inl TypeError)"

text \<open>\<open>min(psutil.cpu_count(), 64)\<close>: \<open>cpu_count\<close> may return \<open>None\<close>, which does not compare.\<close>

definition min64 :: "arg \<Rightarrow> pyerr + arg" where
  "min64 v = (case v of I n \<Rightarrow> Inr (I (min n 64)) | _ \<Rightarrow> Inl TypeError)"

text \<open>
  The parsed command line (\<open>parse_pipeline_args\<close> of domino.pipelines.utils): the
  attributes the script reads.
\<close>

record pipeline_args =
  worker_idx :: int
  num_workers :: int
  sanity :: bool
  synthetic :: bool

text \<open>
  \<open>try: nltk.data.find("corpora/wordnet")  except LookupError: nltk.download("wordnet")\<close>,
  the same statement in both scripts.
\<close>

definition find_wordnet :: call where
  "find_wordnet = Call ''nltk.data.find'' [S ''corpora/wordnet''] []"

definition download_wordnet :: call where
  "download_wordnet = Call ''nltk.download'' [S ''wordnet''] []"

definition ensure_wordnet :: "script_env \<Rightarrow> (call, unit) eff" where
  "ensure_wordnet env =
     etry (xcall env find_wordnet)
       (\<lambda>e. if isinstance_LookupError e
             then Some (ebind (xcall env download_wordnet) (\<lambda>_. ereturn ()))
             else None)
       (\<lambda>_. ereturn ())"

text \<open>The calls whose arguments both scripts write alike.\<close>

definition get_imagenet_dp :: call where
  "get_imagenet_dp = Call ''get_imagenet_dp'' [] []"

definition split_dp :: "arg \<Rightarrow> call" where
  "split_dp data_dp = Call ''split_dp'' [] [(''dp'', data_dp), (''split_on'', S ''image_id'')]"

definition get_wiki_words :: call where
  "get_wiki_words = Call ''get_wiki_words'' [] [(''top_k'', I 10000), (''eng_only'', B True)]"

definition embed_words :: "arg \<Rightarrow> call" where
  "embed_words words_dp = Call ''embed_words'' [] [(''words_dp'', words_dp)]"

definition embed_images_bit :: "arg \<Rightarrow> arg \<Rightarrow> call" where
  "embed_images_bit data_dp split =
     Call ''embed_images'' []
       [(''emb_type'', S ''bit''), (''dp'', data_dp), (''split_dp'', split),
        (''splits'', L [S ''valid'', S ''test'']), (''img_column'', S ''image''),
        (''num_workers'', I 7), (''mmap'', B True)]"

definition embed_images_imagenet :: "arg \<Rightarrow> arg \<Rightarrow> call" where
  "embed_images_imagenet data_dp split =
     Call ''embed_images'' []
       [(''emb_type'', S ''imagenet''), (''dp'', data_dp), (''split_dp'', split),
        (''layers'', D [(''emb'', S ''layer4'')]),
        (''splits'', L [S ''valid'', S ''test'']), (''img_column'', S ''image''),
        (''num_workers'', I 7), (''mmap'', B True)]"

definition embed_images_random :: "arg \<Rightarrow> arg \<Rightarrow> call" where
  "embed_images_random data_dp split =
     Call ''embed_images'' []
       [(''emb_type'', S ''imagenet''), (''dp'', data_dp), (''split_dp'', split),
        (''layers'', D [(''emb'', S ''layer4'')]),
        (''splits'', L [S ''valid'', S ''test'']), (''img_column'', S ''image''),
        (''num_workers'', I 7), (''mmap'', B True), (''model'', S ''resnet50_random'')]"

definition embed_images_clip :: "arg \<Rightarrow> arg \<Rightarrow> call" where
  "embed_images_clip data_dp split =
     Call ''embed_images'' []
       [(''emb_type'', S ''clip''), (''dp'', data_dp), (''split_dp'', split),
        (''splits'', L [S ''valid'', S ''test'']), (''img_column'', S ''image''),
        (''num_workers'', I 7), (''mmap'', B True)]"

definition synthetic_score_settings :: "arg \<Rightarrow> arg \<Rightarrow> arg \<Rightarrow> rat \<Rightarrow> call" where
  "synthetic_score_settings setting_dp data_dp split sens =
     Call ''synthetic_score_settings'' []
       [(''setting_dp'', setting_dp), (''data_dp'', data_dp), (''split_dp'', split),
        (''synthetic_kwargs'',
           D [(''sensitivity'', F sens), (''slice_sensitivities'', F (4 / 10)),
              (''specificity'', F sens), (''slice_specificities'', F (4 / 10))])]"

definition common_config :: "arg \<Rightarrow> (string \<times> arg) list" where
  "common_config grid = [(''n_slices'', I 5), (''emb'', grid), (''xmodal_emb'', S ''emb'')]"

definition grid_search :: call where
  "grid_search = Call ''tune.grid_search'' [L [T [S ''clip'', S ''emb'']]] []"

definition score_sdms :: "arg \<Rightarrow> call" where
  "score_sdms setting_dp =
     Call ''score_sdms'' []
       [(''setting_dp'', setting_dp),
        (''spec_columns'', L [S ''emb_group'', S ''alpha'', S ''sdm_class'']),
        (''skip_terra_cache'', B True)]"

subsection \<open>\<open>domino/pipelines/imagenet.py\<close>\<close>

definition imagenet_collect_rare :: "arg \<Rightarrow> arg \<Rightarrow> call" where
  "imagenet_collect_rare data_dp words_dp =
     Call ''collect_settings'' []
       [(''dataset'', S ''imagenet''), (''slice_category'', S ''rare''), (''data_dp'', data_dp),
        (''num_slices'', I 1), (''words_dp'', words_dp),
        (''min_slice_frac'', F (3 / 100)), (''max_slice_frac'', F (3 / 100)),
        (''n'', I 30000)]"

definition imagenet_collect_noisy :: "arg \<Rightarrow> arg \<Rightarrow> call" where
  "imagenet_collect_noisy data_dp words_dp =
     Call ''collect_settings'' []
       [(''dataset'', S ''imagenet''), (''slice_category'', S ''noisy_label''),
        (''data_dp'', data_dp), (''num_slices'', I 1), (''words_dp'', words_dp),
        (''min_error_rate'', F (1 / 10)), (''max_error_rate'', F (5 / 10)),
        (''n'', I 30000), (''skip_terra_cache'', B True)]"

definition imagenet_train_settings :: "arg \<Rightarrow> arg \<Rightarrow> arg \<Rightarrow> arg \<Rightarrow> arg \<Rightarrow> call" where
  "imagenet_train_settings setting_dp data_dp split num_gpus num_cpus =
     Call ''train_settings'' []
       [(''setting_dp'', setting_dp), (''data_dp'', data_dp), (''split_dp'', split),
        (''model_config'', D [(''pretrained'', B False)]),
        (''batch_size'', I 256), (''val_check_interval'', I 50), (''max_epochs'', I 1),
        (''ckpt_monitor'', S ''valid_auroc''),
        (''num_gpus'', num_gpus), (''num_cpus'', num_cpus)]"

definition imagenet_score_settings :: "arg \<Rightarrow> arg \<Rightarrow> arg \<Rightarrow> call" where
  "imagenet_score_settings setting_dp num_gpus num_cpus =
     Call ''score_settings'' []
       [(''model_dp'', setting_dp), (''layers'', D [(''layer4'', S ''model.layer4'')]),
        (''batch_size'', I 512), (''reduction_fns'', L [S ''mean'']),
        (''num_gpus'', num_gpus), (''num_cpus'', num_cpus),
        (''split'', L [S ''test'', S ''valid''])]"

definition imagenet_run_sdms :: "arg \<Rightarrow> arg \<Rightarrow> arg \<Rightarrow> arg \<Rightarrow> arg \<Rightarrow> arg \<Rightarrow> arg \<Rightarrow> call" where
  "imagenet_run_sdms setting_dp embs clip words_dp grid num_gpus num_cpus =
     Call ''run_sdms'' []
       [(''setting_dp'', setting_dp), (''emb_dp'', embs), (''xmodal_emb_dp'', clip),
        (''word_dp'', words_dp),
        (''sdm_config'',
           L [D [(''sdm_class'', Cls ''ConfusionSDM''),
                 (''sdm_config'', D (common_config grid))]]),
        (''num_gpus'', num_gpus), (''num_cpus'', num_cpus),
        (''skip_terra_cache'', B False)]"

definition imagenet_script :: "script_env \<Rightarrow> (call, unit) eff" where
  "imagenet_script env =
     ebind (xcall env (Call ''torch.cuda.device_count'' [] [])) (\<lambda>num_gpus.
     ebind (xcall env (Call ''psutil.cpu_count'' [] [])) (\<lambda>num_cpus.
     ebind (print_call [S ''Found'', num_gpus, num_cpus]) (\<lambda>_.
     ebind (ensure_wordnet env) (\<lambda>_.
     ebind (xcall env get_imagenet_dp) (\<lambda>data_dp.
     ebind (xcall env (split_dp data_dp)) (\<lambda>split.
     ebind (xcall env get_wiki_words) (\<lambda>words_dp0.
     ebind (xcall env (embed_words words_dp0)) (\<lambda>words_dp.
     ebind (xcall env (embed_images_bit data_dp split)) (\<lambda>bit.
     ebind (xcall env (embed_images_imagenet data_dp split)) (\<lambda>imagenet.
     ebind (xcall env (embed_images_random data_dp split)) (\<lambda>random.
     ebind (xcall env (embed_images_clip data_dp split)) (\<lambda>clip.
     let embs = D [(''bit'', bit), (''imagenet'', imagenet), (''random'', random), (''clip'', clip)] in
     ebind (xcall env (imagenet_collect_rare data_dp words_dp)) (\<lambda>rare.
     ebind (xcall env (imagenet_collect_noisy data_dp words_dp)) (\<lambda>noisy.
     ebind (xcall env (Call ''concat_settings'' [L [rare, noisy]] [])) (\<lambda>setting_dp0.
     ebind (xcall env (Call ''load'' [setting_dp0] [])) (\<lambda>setting_dp1.
     ebind (xcall env (Call ''len'' [setting_dp1] [])) (\<lambda>n.
     ebind (xcall env (Call ''np.random.choice'' [n, I 16] [])) (\<lambda>chosen.
     ebind (xcall env (Call ''lz.__getitem__'' [setting_dp1, chosen] [])) (\<lambda>setting_dp2.
     ebind (if False then
              xcall env (synthetic_score_settings setting_dp2 data_dp split (8 / 10))
            else
              ebind (xcall env (imagenet_train_settings setting_dp2 data_dp split num_gpus num_cpus)) (\<lambda>trained.
              ebind (elift (unpack2 trained)) (\<lambda>(setting_dp3, _).
              ebind (xcall env (imagenet_score_settings setting_dp3 num_gpus num_cpus)) (\<lambda>scored.
              ebind (elift (unpack2 scored)) (\<lambda>(setting_dp4, _).
              ereturn setting_dp4))))) (\<lambda>setting_dp5.
     ebind (xcall env grid_search) (\<lambda>grid.
     ebind (xcall env (imagenet_run_sdms setting_dp5 embs clip words_dp grid num_gpus num_cpus)) (\<lambda>setting_dp6.
     ebind (xcall env (score_sdms setting_dp6)) (\<lambda>slices_df.
     ereturn ())))))))))))))))))))))))"

subsection \<open>\<open>scratch/sabri/10-03_imagenet_synthetic_method.py\<close>\<close>

definition synthetic_collect_rare :: "arg \<Rightarrow> arg \<Rightarrow> call" where
  "synthetic_collect_rare data_dp words_dp =
     Call ''collect_settings'' []
       [(''dataset'', S ''imagenet''), (''slice_category'', S ''rare''), (''data_dp'', data_dp),
        (''num_slices'', I 1), (''num_frac'', I 4), (''words_dp'', words_dp),
        (''min_slice_frac'', F (1 / 100)), (''max_slice_frac'', F (5 / 100)),
        (''n'', I 30000)]"

definition synthetic_collect_noisy :: "arg \<Rightarrow> arg \<Rightarrow> call" where
  "synthetic_collect_noisy data_dp words_dp =
     Call ''collect_settings'' []
       [(''dataset'', S ''imagenet''), (''slice_category'', S ''noisy_label''),
        (''data_dp'', data_dp), (''num_samples'', I 4), (''words_dp'', words_dp),
        (''min_error_rate'', F (1 / 10)), (''max_error_rate'', F (4 / 10)),
        (''n'', I 30000)]"

definition synthetic_run_sdms :: "arg \<Rightarrow> arg \<Rightarrow> arg \<Rightarrow> arg \<Rightarrow> arg \<Rightarrow> call" where
  "synthetic_run_sdms setting_dp embs clip words_dp grid =
     Call ''run_sdms'' []
       [(''setting_dp'', setting_dp), (''emb_dp'', embs), (''xmodal_emb_dp'', clip),
        (''word_dp'', words_dp),
        (''sdm_config'',
           L [D [(''sdm_class'', Cls ''SpotlightSDM''),
                 (''sdm_config'',
                    D ([(''learning_rate'', F (1 / 1000)), (''device'', S ''cpu'')]
                       @ common_config grid))],
              D [(''sdm_class'', Cls ''MultiaccuracySDM''),
                 (''sdm_config'', D (common_config grid))],
              D [(''sdm_class'', Cls ''GeorgeSDM''),
                 (''sdm_config'', D (common_config grid))],
              D [(''sdm_class'', Cls ''MixtureModelSDM''),
                 (''sdm_config'', D ((''weight_y_log_likelihood'', I 10) # common_config grid))],
              D [(''sdm_class'', Cls ''ConfusionSDM''),
                 (''sdm_config'', D (common_config grid))]]),
        (''skip_terra_cache'', B True)]"

definition synthetic_method_script :: "script_env \<Rightarrow> pipeline_args \<Rightarrow> (call, unit) eff" where
  "synthetic_method_script env args =
     ebind (print_call [I (worker_idx args), I (num_workers args)]) (\<lambda>_.
     ebind (xcall env (Call ''torch.cuda.device_count'' [] [])) (\<lambda>num_gpus.
     ebind (xcall env (Call ''psutil.cpu_count'' [] [])) (\<lambda>cpu_count.
     ebind (elift (min64 cpu_count)) (\<lambda>num_cpus.
     ebind (print_call [S ''Found'', num_gpus, num_cpus]) (\<lambda>_.
     ebind (xcall env (Call ''ray.init'' []
              [(''num_gpus'', num_gpus), (''num_cpus'', num_cpus),
               (''ignore_reinit_error'', B True)])) (\<lambda>_.
     ebind (ensure_wordnet env) (\<lambda>_.
     ebind (xcall env get_imagenet_dp) (\<lambda>data_dp.
     ebind (xcall env (split_dp data_dp)) (\<lambda>split.
     ebind (xcall env get_wiki_words) (\<lambda>words_dp0.
     ebind (xcall env (embed_words words_dp0)) (\<lambda>words_dp.
     ebind (xcall env (embed_images_bit data_dp split)) (\<lambda>bit.
     ebind (xcall env (embed_images_random data_dp split)) (\<lambda>random.
     ebind (xcall env (embed_images_clip data_dp split)) (\<lambda>clip.
     let embs = D [(''bit'', bit), (''random'', random), (''clip'', clip)] in
     ebind (xcall env (synthetic_collect_rare data_dp words_dp)) (\<lambda>rare.
     ebind (xcall env (synthetic_collect_noisy data_dp words_dp)) (\<lambda>noisy.
     ebind (xcall env (Call ''concat_settings'' [L [rare, noisy]] [])) (\<lambda>setting_dp0.
     ebind (xcall env (Call ''load'' [setting_dp0] [])) (\<lambda>loaded.
     ebind (xcall env (Call ''len'' [loaded] [])) (\<lambda>n.
     ebind (print_call [n]) (\<lambda>_.
     ebind (if sanity args then
              xcall env (Call ''random_filter_settings'' [setting_dp0] [(''subset_size'', I 64)])
            else ereturn setting_dp0) (\<lambda>setting_dp1.
     ebind (if synthetic args then
              xcall env (synthetic_score_settings setting_dp1 data_dp split (75 / 100))
            else elift (Inl (ValueError []))) (\<lambda>setting_dp2.
     ebind (xcall env grid_search) (\<lambda>grid.
     ebind (xcall env (synthetic_run_sdms setting_dp2 embs clip words_dp grid)) (\<lambda>setting_dp3.
     ebind (xcall env (score_sdms setting_dp3)) (\<lambda>slices_df.
     ereturn ())))))))))))))))))))))))))"

subsection \<open>Stages\<close>

text \<open>
  The five collaborator stages, by callee: dataset provider, embedding provider, setting
  collector, train/score harness, discovery runner and scorer. Every other call
  (interpreter builtins, torch, psutil, ray, nltk, numpy, tune, and the methods of the
  objects returned) belongs to no stage.
\<close>

definition name_stage :: "string \<Rightarrow> nat option" where
  "name_stage f =
     (if f \<in> set [''get_imagenet_dp'', ''split_dp''] then Some 1
      else if f \<in> set [''get_wiki_words'', ''embed_words'', ''embed_images''] then Some 2
      else if f \<in> set [''collect_settings'', ''concat_settings'', ''random_filter_settings''] then Some 3
      else if f \<in> set [''synthetic_score_settings'', ''train_settings'', ''score_settings''] then Some 4
      else if f \<in> set [''run_sdms'', ''score_sdms''] then Some 5
      else None)"

definition stage :: "call \<Rightarrow> nat option" where
  "stage c = name_stage (call_name c)"


section \<open>\<open>train_linear_slices\<close> of \<open>train.py\<close>\<close>

text \<open>
  \<open>np.linspace(start, stop, num)\<close> with the default \<open>endpoint=True\<close>, following
  numpy's algorithm: a negative \<open>num\<close> is a ValueError; with \<open>d = num - 1\<close> the
  samples are \<open>arange(num) * step + start\<close> for \<open>step = (stop - start) / d\<close> when
  \<open>d > 0\<close> and \<open>arange(num) * (stop - start) + start\<close> otherwise; for
  \<open>num > 1\<close> the last sample is then set to \<open>stop\<close>. Floats are idealised as
  rationals: the rounding of the float operations is not modelled.
\<close>

definition linspace :: "rat \<Rightarrow> rat \<Rightarrow> int \<Rightarrow> pyerr + rat list" where
  "linspace start stop num =
     (if num < 0 then Inl (ValueError ''Number of samples must be non-negative.'')
      else
        let d = num - 1;
            delta = stop - start;
            y = map (\<lambda>i. if 0 < d then rat_of_nat i * (delta / rat_of_int d) + start
                          else rat_of_nat i * delta + start) [0..<nat num]
        in Inr (if 1 < num then y[nat num - 1 := stop] else y))"

text \<open>
  The closure \<open>_train_model\<close> passed to \<open>tune.run\<close>: the variables it captures.
\<close>

record trainable =
  closure_dp_run_id :: int
  closure_input_column :: string
  closure_id_column :: string
  closure_num_examples :: pyval
  closure_kwargs :: kwargs

text \<open>
  The arguments of \<open>tune.run\<close>: the trainable, the two \<open>tune.grid_search\<close> lists of
  \<open>config\<close>, \<open>num_samples\<close> and \<open>resources_per_trial\<close>.
\<close>

record tune_run_call =
  run_trainable :: trainable
  config_corr :: "rat list"
  config_target_correlate :: "string list list"
  run_num_samples :: pyval
  run_resources_per_trial :: "(string \<times> int) list"

datatype tune_event =
    Call_ray_init int int
  | Call_tune_run tune_run_call
  | Call_dataframe nat

text \<open>\<open>ray.init\<close>, \<open>tune.run\<close> (returning the analysis object) and its \<open>dataframe()\<close>.\<close>

record tune_env =
  ray_init :: "int \<Rightarrow> int \<Rightarrow> pyerr + unit"
  tune_run :: "tune_run_call \<Rightarrow> pyerr + nat"
  dataframe :: "nat \<Rightarrow> pyerr + nat"

definition train_linear_slices ::
  "tune_env \<Rightarrow> int \<Rightarrow> string list list \<Rightarrow> string \<Rightarrow> string \<Rightarrow> rat \<Rightarrow> int \<Rightarrow> pyval \<Rightarrow> pyval \<Rightarrow>
   string option \<Rightarrow> kwargs \<Rightarrow> (tune_event, nat) eff" where
  "train_linear_slices env dp_run_id target_correlate_pairs input_column id_column
     max_corr num_corrs num_examples num_samples run_dir kw =
     ebind (ecall (Call_ray_init 4 32) (ray_init env 4 32)) (\<lambda>_.
     ebind (elift (linspace 0 max_corr num_corrs)) (\<lambda>corrs.
       let rc = \<lparr>run_trainable =
                   \<lparr>closure_dp_run_id = dp_run_id, closure_input_column = input_column,
                      closure_id_column = id_column, closure_num_examples = num_examples,
                      closure_kwargs = kw\<rparr>,
                 config_corr = corrs,
                 config_target_correlate = target_correlate_pairs,
                 run_num_samples = num_samples,
                 run_resources_per_trial = [(''gpu'', 1)]\<rparr>
       in ebind (ecall (Call_tune_run rc) (tune_run env rc)) (\<lambda>analysis.
          ecall (Call_dataframe analysis) (dataframe env analysis))))"

text \<open>
  Ray Tune's grid search runs the trainable, \<open>num_samples\<close> times, on every combination
  of the values of the \<open>grid_search\<close> entries of \<open>config\<close>: the configurations of one
  sample.
\<close>

definition grid_search_space :: "tune_run_call \<Rightarrow> (rat \<times> string list) list" where
  "grid_search_space rc = List.product (config_corr rc) (config_target_correlate rc)"

text \<open>
  One trial, \<open>_train_model(config)\<close>: \<open>train_model\<close> on \<open>terra.out(dp_run_id)\<close> (the
  DataPanel \<open>dp\<close>) with the configuration's \<open>corr\<close> and \<open>target_correlate\<close>;
  \<open>pbar=False\<close> joins the keyword arguments passed on, and \<open>run_dir\<close> is the task's.
\<close>

definition train_trial ::
  "train_env \<Rightarrow> datapanel \<Rightarrow> string option \<Rightarrow> trainable \<Rightarrow> rat \<times> string list \<Rightarrow>
   (train_event, metadata option) eff" where
  "train_trial env dp run_dir t config =
     train_model env dp (snd config) (PyFloat (fst config)) (closure_num_examples t)
       (closure_input_column t) (closure_id_column t) run_dir
       ((''pbar'', PyBool False) # closure_kwargs t)"

section \<open>Traces by callee\<close>

text \<open>
  The callees of a run, in order, are a prefix of \<open>ns\<close>, and they are all of \<open>ns\<close>
  when the run returns.
\<close>

definition names_within :: "(call, 'a) eff \<Rightarrow> string list \<Rightarrow> bool" where
  "names_within m ns \<longleftrightarrow>
     prefix (map call_name (snd m)) ns \<and>
     (\<forall>x. fst m = Inr x \<longrightarrow> map call_name (snd m) = ns)"

definition wordnet_names :: "script_env \<Rightarrow> string list" where
  "wordnet_names env = map call_name (snd (ensure_wordnet env))"


text \<open>The collaborator calls of a trace: all but what the script prints.\<close>

definition collaborator_calls :: "call list \<Rightarrow> call list" where
  "collaborator_calls tr = filter (\<lambda>c. call_name c \<noteq> ''print'') tr"

section \<open>Example inputs\<close>

text \<open>A small DataPanel with a split column and a column the code never names.\<close>

definition example_dp :: datapanel where
  "example_dp =
     \<lparr>columns = [''file'', ''y'', ''z'', ''split'', ''extra''],
      rows = [[PyStr ''a'', PyInt 1, PyInt 0, PyStr ''test'', PyInt 5],
              [PyStr ''b'', PyInt 0, PyInt 0, PyStr ''train'', PyInt 6],
              [PyStr ''c'', PyInt 1, PyInt 1, PyStr ''valid'', PyInt 7]]\<rparr>"

text \<open>Collaborators for \<open>train_model\<close>: one finds indices, one finds the correlation impossible.\<close>

definition example_train_env :: train_env where
  "example_train_env =
     \<lparr>induce_correlation = (\<lambda>_. Inr [0, 2]), train = (\<lambda>_. Inr ())\<rparr>"

definition impossible_train_env :: train_env where
  "impossible_train_env =
     \<lparr>induce_correlation = (\<lambda>_. Inl (CorrelationImpossibleError ''impossible'')),
      train = (\<lambda>_. Inr ())\<rparr>"

text \<open>A scorer that adds one column of scores to the rows it is given.\<close>

definition example_score_env :: "(nat, nat) score_env" where
  "example_score_env =
     \<lparr>nested_getattr = (\<lambda>m p. Inr 7),
      score = (\<lambda>c. Inr \<lparr>columns = columns (score_dp c) @ [''prob''],
                         rows = map (\<lambda>r. r @ [PyInt 9]) (rows (score_dp c))\<rparr>)\<rparr>"

text \<open>
  Collaborators for the scripts that all return: the harness returns pairs, the
  device counts are integers, everything else returns an opaque object.
\<close>

definition ok_env :: script_env where
  "ok_env c =
     (let f = call_name c in
      if f \<in> set [''train_settings'', ''score_settings''] then Inr (T [H 1, H 2])
      else if f \<in> set [''torch.cuda.device_count'', ''psutil.cpu_count'', ''len''] then Inr (I 8)
      else Inr (H 0))"

text \<open>The same collaborators on a machine where the wordnet corpus is not installed.\<close>

definition missing_wordnet_env :: script_env where
  "missing_wordnet_env = ok_env(find_wordnet := Inl LookupError)"

definition example_tune_env :: tune_env where
  "example_tune_env =
     \<lparr>ray_init = (\<lambda>g c. Inr ()), tune_run = (\<lambda>rc. Inr 0), dataframe = (\<lambda>a. Inr 1)\<rparr>"

text \<open>The \<open>tune.run\<close> call of the example runs, for a given correlation grid.\<close>

definition example_tune_call :: "rat list \<Rightarrow> tune_run_call" where
  "example_tune_call corrs =
     \<lparr>run_trainable =
        \<lparr>closure_dp_run_id = 0, closure_input_column = ''input'',
           closure_id_column = ''file'', closure_num_examples = PyFloat 30000,
           closure_kwargs = []\<rparr>,
      config_corr = corrs,
      config_target_correlate = [[''y'', ''z'']],
      run_num_samples = PyInt 1,
      run_resources_per_trial = [(''gpu'', 1)]\<rparr>"

section \<open>Lemmas on effects\<close>

lemma ebind_elift:
  "ebind (elift r) f = (case r of Inl e \<Rightarrow> (Inl e, []) | Inr x \<Rightarrow> f x)"
  by (simp add: ebind_def elift_def split: sum.splits prod.splits)

lemma ebind_ecall:
  "ebind (ecall ev r) f =
     (case r of Inl e \<Rightarrow> (Inl e, [ev]) | Inr x \<Rightarrow> (fst (f x), ev # snd (f x)))"
  by (simp add: ebind_def ecall_def split: sum.splits prod.splits)

lemma etry_ecall:
  "etry (ecall ev r) h f =
     (case r of
        Inl e \<Rightarrow> (case h e of None \<Rightarrow> (Inl e, [ev]) | Some k \<Rightarrow> (fst k, ev # snd k))
      | Inr x \<Rightarrow> (fst (f x), ev # snd (f x)))"
  by (simp add: etry_def ecall_def split: sum.splits prod.splits option.splits)

lemma fst_ereturn: "fst (ereturn x) = Inr x"
  by (simp add: ereturn_def)

lemma snd_ereturn: "snd (ereturn x) = []"
  by (simp add: ereturn_def)

lemma fst_ebind:
  "fst (ebind m f) = (case fst m of Inl e \<Rightarrow> Inl e | Inr x \<Rightarrow> fst (f x))"
  by (simp add: ebind_def split: prod.splits sum.splits)

lemma snd_ebind:
  "snd (ebind m f) = (case fst m of Inl e \<Rightarrow> snd m | Inr x \<Rightarrow> snd m @ snd (f x))"
  by (simp add: ebind_def split: prod.splits sum.splits)


section \<open>\<open>train_model\<close>: the impossible correlation is skipped\<close>

text \<open>
  Claim C1. Once \<open>train_model\<close> has unpacked the pair and built the metadata, it calls
  \<open>induce_correlation\<close>. If that raises CorrelationImpossibleError, the task prints the
  error and returns \<open>None\<close>: the only calls made are \<open>induce_correlation\<close> and
  \<open>print\<close>, \<open>train\<close> is not called and nothing is raised. If it returns indices (and
  the rows at these indices exist), \<open>train\<close> is called on these rows with the metadata as
  \<open>wandb_config\<close>, and the metadata is returned when \<open>train\<close> returns.
\<close>

theorem train_model_skips_impossible_correlation:
  "unpack_pair target_correlate = Inr (target, correlate) \<Longrightarrow>
   run_id_of run_dir = Inr run_id \<Longrightarrow>
   ic = \<lparr>induce_dp = dp, induce_corr = corr, induce_attr_a = target,
         induce_attr_b = correlate, induce_n = num_examples, induce_match_mu = True\<rparr> \<Longrightarrow>
   md = make_metadata target correlate corr num_examples run_id \<Longrightarrow>
   (\<forall>msg. induce_correlation env ic = Inl (CorrelationImpossibleError msg) \<longrightarrow>
      train_model env dp target_correlate corr num_examples input_column id_column run_dir kw =
        (Inr None, [Call_induce_correlation ic, Call_print (CorrelationImpossibleError msg)])) \<and>
   (\<forall>indices sub. induce_correlation env ic = Inr indices \<longrightarrow> lz_indices dp indices = Inr sub \<longrightarrow>
      (let tc = \<lparr>train_dp = sub, train_input_column = input_column,
                 train_id_column = id_column, train_target_column = target,
                 train_run_dir = run_dir, train_wandb_config = md, train_kwargs = kw\<rparr>
       in train_model env dp target_correlate corr num_examples input_column id_column run_dir kw =
            ((case train env tc of Inl e \<Rightarrow> Inl e | Inr u \<Rightarrow> Inr (Some md)),
             [Call_induce_correlation ic, Call_train tc])))"
  by (auto simp: train_model_def Let_def ebind_elift ebind_ecall etry_ecall fst_ereturn snd_ereturn
           split: sum.splits)

lemma example_run_id: "run_id_of (Some ''/runs/42'') = Inr 42"
  by code_simp

lemma example_rows: "lz_indices example_dp [0, 2] =
    Inr \<lparr>columns = [''file'', ''y'', ''z'', ''split'', ''extra''],
         rows = [[PyStr ''a'', PyInt 1, PyInt 0, PyStr ''test'', PyInt 5],
                 [PyStr ''c'', PyInt 1, PyInt 1, PyStr ''valid'', PyInt 7]]\<rparr>"
  by (simp add: lz_indices_def row_at_def example_dp_def)

theorem train_model_skips_impossible_correlation_witness:
  "train_model impossible_train_env example_dp [''y'', ''z''] (PyFloat (4 / 5)) (PyInt 2)
     ''input'' ''file'' (Some ''/runs/42'') [] =
     (Inr None,
      [Call_induce_correlation
         \<lparr>induce_dp = example_dp, induce_corr = PyFloat (4 / 5), induce_attr_a = ''y'',
          induce_attr_b = ''z'', induce_n = PyInt 2, induce_match_mu = True\<rparr>,
       Call_print (CorrelationImpossibleError ''impossible'')]) \<and>
   fst (train_model example_train_env example_dp [''y'', ''z''] (PyFloat (4 / 5)) (PyInt 2)
     ''input'' ''file'' (Some ''/runs/42'') []) =
     Inr (Some [(''target'', PyStr ''y''), (''correlate'', PyStr ''z''),
                (''corr'', PyFloat (4 / 5)), (''num_examples'', PyInt 2),
                (''run_id'', PyInt 42)])"
proof -
  have a: "unpack_pair [''y'', ''z''] = Inr (''y'', ''z'')"
    by (simp add: unpack_pair_def)
  note t = train_model_skips_impossible_correlation [OF a example_run_id refl refl]
  have "induce_correlation impossible_train_env ic = Inl (CorrelationImpossibleError ''impossible'')" for ic
    by (simp add: impossible_train_env_def)
  with t [of impossible_train_env example_dp "PyFloat (4 / 5)" "PyInt 2" "''input''" "''file''" "[]"]
  have skip: "train_model impossible_train_env example_dp [''y'', ''z''] (PyFloat (4 / 5)) (PyInt 2)
     ''input'' ''file'' (Some ''/runs/42'') [] =
     (Inr None,
      [Call_induce_correlation
         \<lparr>induce_dp = example_dp, induce_corr = PyFloat (4 / 5), induce_attr_a = ''y'',
          induce_attr_b = ''z'', induce_n = PyInt 2, induce_match_mu = True\<rparr>,
       Call_print (CorrelationImpossibleError ''impossible'')])"
    by blast
  have "induce_correlation example_train_env ic = Inr [0, 2]" for ic
    by (simp add: example_train_env_def)
  with t [of example_train_env example_dp "PyFloat (4 / 5)" "PyInt 2" "''input''" "''file''" "[]"]
    example_rows
  have "fst (train_model example_train_env example_dp [''y'', ''z''] (PyFloat (4 / 5)) (PyInt 2)
     ''input'' ''file'' (Some ''/runs/42'') []) =
     Inr (Some (make_metadata ''y'' ''z'' (PyFloat (4 / 5)) (PyInt 2) 42))"
    by (simp add: Let_def example_train_env_def)
  with skip show ?thesis
    by (simp add: make_metadata_def)
qed

section \<open>\<open>_get_reduction_fn\<close>: both names give \<open>torch.mean\<close>\<close>

text \<open>
  Claim C8. The reduction functions built for \<open>"max"\<close> and for \<open>"mean"\<close> are both
  \<open>torch.mean\<close> over the dimensions \<open>[-1, -2]\<close>, and so give equal results on every
  tensor, whatever \<open>torch.mean\<close> computes; they differ in the \<open>__name__\<close> only.
\<close>

theorem max_reduction_is_mean:
  "\<exists>fmax fmean.
     get_reduction_fn ''max'' = Inr fmax \<and> get_reduction_fn ''mean'' = Inr fmean \<and>
     partial_func fmax = Torch_mean \<and> partial_func fmean = Torch_mean \<and>
     partial_dim fmax = [-1, -2] \<and> partial_dim fmean = [-1, -2] \<and>
     fn_name fmax = ''max'' \<and> fn_name fmean = ''mean'' \<and>
     (\<forall>torch_mean t.
        apply_reduction torch_mean fmax t = torch_mean [-1, -2] t \<and>
        apply_reduction torch_mean fmean t = apply_reduction torch_mean fmax t)"
  by (simp add: get_reduction_fn_def apply_reduction_def)

section \<open>\<open>score_model\<close>\<close>

lemma map_raise_reduction_valid:
  "\<forall>n\<in>set names. n = ''max'' \<or> n = ''mean'' \<Longrightarrow>
   map_raise get_reduction_fn names =
     Inr (map (\<lambda>n. \<lparr>partial_func = Torch_mean, partial_dim = [-1, -2], fn_name = n\<rparr>) names)"
  by (induction names) (auto simp: get_reduction_fn_def)

lemma get_reduction_fn_valid:
  "a = ''max'' \<or> a = ''mean'' \<Longrightarrow>
   get_reduction_fn a = Inr \<lparr>partial_func = Torch_mean, partial_dim = [-1, -2], fn_name = a\<rparr>"
  by (auto simp: get_reduction_fn_def)

lemma get_reduction_fn_invalid:
  "a \<noteq> ''max'' \<Longrightarrow> a \<noteq> ''mean'' \<Longrightarrow>
   get_reduction_fn a = Inl (ValueError (''reduction_fn '' @ a @ '' not supported.''))"
  by (simp add: get_reduction_fn_def)

lemma map_raise_reduction_invalid:
  "n \<in> set names \<Longrightarrow> n \<noteq> ''max'' \<Longrightarrow> n \<noteq> ''mean'' \<Longrightarrow>
   \<exists>m. m \<in> set names \<and> m \<noteq> ''max'' \<and> m \<noteq> ''mean'' \<and>
       map_raise get_reduction_fn names =
         Inl (ValueError (''reduction_fn '' @ m @ '' not supported.''))"
proof (induction names)
  case Nil
  then show ?case by simp
next
  case (Cons a names)
  show ?case
  proof (cases "a = ''max'' \<or> a = ''mean''")
    case True
    with Cons.prems have "n \<in> set names"
      by auto
    with Cons obtain m where m: "m \<in> set names" "m \<noteq> ''max''" "m \<noteq> ''mean''"
      and bad: "map_raise get_reduction_fn names =
         Inl (ValueError (''reduction_fn '' @ m @ '' not supported.''))"
      by blast
    have "map_raise get_reduction_fn (a # names) =
        Inl (ValueError (''reduction_fn '' @ m @ '' not supported.''))"
      by (simp only: map_raise.simps get_reduction_fn_valid [OF True] bad sum.case)
    with m show ?thesis
      by (intro exI [of _ m]) simp
  next
    case False
    then have a: "a \<noteq> ''max''" "a \<noteq> ''mean''"
      by simp_all
    have "map_raise get_reduction_fn (a # names) =
        Inl (ValueError (''reduction_fn '' @ a @ '' not supported.''))"
      by (simp only: map_raise.simps get_reduction_fn_invalid [OF a] sum.case)
    with a show ?thesis
      by (intro exI [of _ a]) simp
  qed
qed

text \<open>
  Claim C4. If some name of \<open>reduction_fns\<close> is neither \<open>"max"\<close> nor \<open>"mean"\<close>, then
  \<open>score_model\<close> (once the layers are looked up) raises the ValueError of such a name,
  before any call to \<open>score\<close>: the run ends there. If every name is \<open>"max"\<close> or
  \<open>"mean"\<close>, the conversion raises nothing: it yields one function per name, and (the
  layers, the run id and the split column being there) \<open>score\<close> is called with them.
\<close>

theorem invalid_reduction_fn_raises:
  "(n \<in> set names \<longrightarrow> n \<noteq> ''max'' \<longrightarrow> n \<noteq> ''mean'' \<longrightarrow>
      resolve_layers env model layers = Inr ls \<longrightarrow>
      (\<exists>m. m \<in> set names \<and> m \<noteq> ''max'' \<and> m \<noteq> ''mean'' \<and>
           score_model env dp model target correlate corr num_examples split input_column
             id_column layers (Some names) run_dir kw =
             (Inl (ValueError (''reduction_fn '' @ m @ '' not supported.'')), []))) \<and>
   ((\<forall>n\<in>set names. n = ''max'' \<or> n = ''mean'') \<longrightarrow>
      resolve_reduction_fns (Some names) =
        Inr (Some (map (\<lambda>n. \<lparr>partial_func = Torch_mean, partial_dim = [-1, -2], fn_name = n\<rparr>)
                     names)) \<and>
      (resolve_layers env model layers = Inr ls \<longrightarrow>
       run_id_of run_dir = Inr run_id \<longrightarrow>
       getitem_column dp ''split'' = Inr data \<longrightarrow>
       (\<exists>sc. snd (score_model env dp model target correlate corr num_examples split
                    input_column id_column layers (Some names) run_dir kw) = [Call_score sc] \<and>
             score_reduction_fns sc =
               Some (map (\<lambda>n. \<lparr>partial_func = Torch_mean, partial_dim = [-1, -2], fn_name = n\<rparr>)
                       names))))"
proof (intro conjI impI)
  assume "n \<in> set names" "n \<noteq> ''max''" "n \<noteq> ''mean''"
    and ls: "resolve_layers env model layers = Inr ls"
  then obtain m where m: "m \<in> set names" "m \<noteq> ''max''" "m \<noteq> ''mean''"
    and bad: "map_raise get_reduction_fn names =
        Inl (ValueError (''reduction_fn '' @ m @ '' not supported.''))"
    using map_raise_reduction_invalid by blast
  have "score_model env dp model target correlate corr num_examples split input_column
      id_column layers (Some names) run_dir kw =
      (Inl (ValueError (''reduction_fn '' @ m @ '' not supported.'')), [])"
    by (simp add: score_model_def ebind_elift ls resolve_reduction_fns_def bad)
  with m show "\<exists>m. m \<in> set names \<and> m \<noteq> ''max'' \<and> m \<noteq> ''mean'' \<and>
      score_model env dp model target correlate corr num_examples split input_column
        id_column layers (Some names) run_dir kw =
        (Inl (ValueError (''reduction_fn '' @ m @ '' not supported.'')), [])"
    by blast
next
  assume "\<forall>n\<in>set names. n = ''max'' \<or> n = ''mean''"
  then show "resolve_reduction_fns (Some names) =
      Inr (Some (map (\<lambda>n. \<lparr>partial_func = Torch_mean, partial_dim = [-1, -2], fn_name = n\<rparr>)
                   names))"
    by (simp add: resolve_reduction_fns_def map_raise_reduction_valid)
next
  assume valid: "\<forall>n\<in>set names. n = ''max'' \<or> n = ''mean''"
    and ls: "resolve_layers env model layers = Inr ls"
    and rid: "run_id_of run_dir = Inr run_id"
    and data: "getitem_column dp ''split'' = Inr data"
  from valid have fns: "resolve_reduction_fns (Some names) =
      Inr (Some (map (\<lambda>n. \<lparr>partial_func = Torch_mean, partial_dim = [-1, -2], fn_name = n\<rparr>)
                   names))"
    by (simp add: resolve_reduction_fns_def map_raise_reduction_valid)
  show "\<exists>sc. snd (score_model env dp model target correlate corr num_examples split
                 input_column id_column layers (Some names) run_dir kw) = [Call_score sc] \<and>
        score_reduction_fns sc =
          Some (map (\<lambda>n. \<lparr>partial_func = Torch_mean, partial_dim = [-1, -2], fn_name = n\<rparr>)
                  names)"
    by (simp add: score_model_def ebind_elift ebind_ecall ls fns rid data Let_def snd_ereturn
             split: sum.splits)
qed

theorem invalid_reduction_fn_raises_witness:
  "score_model example_score_env example_dp 0 ''y'' ''z'' (PyFloat (4 / 5)) (PyInt 2)
     (Split_str ''test'') ''input'' ''file'' None (Some [''mean'', ''min'']) (Some ''/runs/42'') [] =
     (Inl (ValueError ''reduction_fn min not supported.''), []) \<and>
   (\<exists>sc. snd (score_model example_score_env example_dp 0 ''y'' ''z'' (PyFloat (4 / 5)) (PyInt 2)
                (Split_str ''test'') ''input'' ''file'' None (Some [''max'', ''mean''])
                (Some ''/runs/42'') []) = [Call_score sc] \<and>
         map fn_name (the (score_reduction_fns sc)) = [''max'', ''mean''])"
proof -
  have ls: "resolve_layers example_score_env (0::nat) None = Inr None"
    by (simp add: resolve_layers_def)
  have data: "getitem_column example_dp ''split'' =
      Inr [PyStr ''test'', PyStr ''train'', PyStr ''valid'']"
    by (simp add: getitem_column_def example_dp_def)
  note t = invalid_reduction_fn_raises [where env = example_score_env and model = "0::nat"
      and layers = None and ls = None and dp = example_dp and run_dir = "Some ''/runs/42''"
      and run_id = 42 and data = "[PyStr ''test'', PyStr ''train'', PyStr ''valid'']"
      and target = "''y''" and correlate = "''z''" and corr = "PyFloat (4 / 5)"
      and num_examples = "PyInt 2" and split = "Split_str ''test''"
      and input_column = "''input''" and id_column = "''file''" and kw = "[]"]
  from t [where n = "''min''" and names = "[''mean'', ''min'']"] ls
  have bad: "score_model example_score_env example_dp 0 ''y'' ''z'' (PyFloat (4 / 5)) (PyInt 2)
     (Split_str ''test'') ''input'' ''file'' None (Some [''mean'', ''min'']) (Some ''/runs/42'') [] =
     (Inl (ValueError ''reduction_fn min not supported.''), [])"
    by auto
  from t [where n = "''max''" and names = "[''max'', ''mean'']"] ls data example_run_id
  have "\<exists>sc. snd (score_model example_score_env example_dp 0 ''y'' ''z'' (PyFloat (4 / 5)) (PyInt 2)
                (Split_str ''test'') ''input'' ''file'' None (Some [''max'', ''mean''])
                (Some ''/runs/42'') []) = [Call_score sc] \<and>
         map fn_name (the (score_reduction_fns sc)) = [''max'', ''mean'']"
    by auto
  with bad show ?thesis
    by blast
qed


lemma example_score_run:
  "score_model example_score_env example_dp 0 ''y'' ''z'' (PyFloat (4 / 5)) (PyInt 2)
     (Split_collection [''test'', ''valid'']) ''input'' ''file'' (Some [(''l4'', ''model.layer4'')])
     (Some [''max'', ''mean'']) (Some ''/runs/42'') [] =
   (Inr (\<lparr>columns = [''file'', ''y'', ''z'', ''split'', ''prob''],
           rows = [[PyStr ''a'', PyInt 1, PyInt 0, PyStr ''test'', PyInt 9],
                   [PyStr ''c'', PyInt 1, PyInt 1, PyStr ''valid'', PyInt 9]]\<rparr>,
         [(''target'', PyStr ''y''), (''correlate'', PyStr ''z''), (''corr'', PyFloat (4 / 5)),
          (''num_examples'', PyInt 2), (''run_id'', PyInt 42)]),
    [Call_score
       \<lparr>score_model_arg = 0,
        score_dp = \<lparr>columns = [''file'', ''y'', ''z'', ''split'', ''extra''],
                    rows = [[PyStr ''a'', PyInt 1, PyInt 0, PyStr ''test'', PyInt 5],
                            [PyStr ''c'', PyInt 1, PyInt 1, PyStr ''valid'', PyInt 7]]\<rparr>,
        score_input_column = ''input'', score_id_column = ''file'',
        score_target_column = ''y'', score_run_dir = Some ''/runs/42'',
        score_layers = Some [(''l4'', 7)],
        score_wandb_config =
          [(''target'', PyStr ''y''), (''correlate'', PyStr ''z''), (''corr'', PyFloat (4 / 5)),
           (''num_examples'', PyInt 2), (''run_id'', PyInt 42)],
        score_reduction_fns =
          Some [\<lparr>partial_func = Torch_mean, partial_dim = [-1, -2], fn_name = ''max''\<rparr>,
                \<lparr>partial_func = Torch_mean, partial_dim = [-1, -2], fn_name = ''mean''\<rparr>],
        score_kwargs = []\<rparr>])"
  by (simp add: score_model_def ebind_elift ebind_ecall Let_def fst_ereturn snd_ereturn
        make_metadata_def example_run_id resolve_layers_def resolve_reduction_fns_def
        get_reduction_fn_def example_score_env_def example_dp_def getitem_column_def
        getitem_columns_def new_columns_def lz_mask_def split_mask_def)


lemma filter_by_mask: "map snd (filter fst (zip (map P xs) xs)) = filter P xs"
  by (induction xs) auto

lemma lz_mask_rows:
  "rows (lz_mask dp (map (\<lambda>r. P (r ! k)) (rows dp))) = filter (\<lambda>r. P (r ! k)) (rows dp)"
  by (simp add: lz_mask_def filter_by_mask)

lemma lz_mask_columns: "columns (lz_mask dp bs) = columns dp"
  by (simp add: lz_mask_def)

lemma getitem_columns_columns: "getitem_columns d cols = Inr selected \<Longrightarrow> columns selected = cols"
  by (auto simp: getitem_columns_def split: sum.splits)

lemma set_new_columns: "set (new_columns scored dp) = set (columns scored) - set (columns dp)"
  by (auto simp: new_columns_def)

text \<open>
  Claim C9. When \<open>score_model\<close> returns, \<open>score\<close> was called once, on the columns of
  the input DataPanel and exactly those of its rows whose \<open>split\<close> cell equals the
  \<open>split\<close> argument (or is one of its members, for a collection), in their order. The
  columns of the DataPanel returned are the id, target and correlate columns, \<open>split\<close>,
  and the columns of the scored DataPanel that the input does not have; no other column
  of the input is among them.
\<close>

theorem score_model_rows_and_columns:
  "score_model env dp model target correlate corr num_examples split input_column id_column
     layers reduction_fns run_dir kw = (Inr (selected, md), tr) \<Longrightarrow>
   \<exists>k sc scored.
     index_of ''split'' (columns dp) = Some k \<and>
     tr = [Call_score sc] \<and> score env sc = Inr scored \<and>
     columns (score_dp sc) = columns dp \<and>
     rows (score_dp sc) =
       filter (\<lambda>r. case split of
                     Split_str s \<Rightarrow> r ! k = PyStr s
                   | Split_collection ss \<Rightarrow> r ! k \<in> set (map PyStr ss)) (rows dp) \<and>
     columns selected = [id_column, target, correlate, ''split''] @ new_columns scored dp \<and>
     set (columns selected) =
       {id_column, target, correlate, ''split''} \<union> (set (columns scored) - set (columns dp)) \<and>
     set (columns selected) \<inter> set (columns dp) \<subseteq> {id_column, target, correlate, ''split''}"
proof -
  assume run: "score_model env dp model target correlate corr num_examples split input_column
      id_column layers reduction_fns run_dir kw = (Inr (selected, md), tr)"
  then obtain ls fns run_id data where
    data: "getitem_column dp ''split'' = Inr data" and
    rest: "ebind (ecall (Call_score
              \<lparr>score_model_arg = model, score_dp = lz_mask dp (split_mask data split),
               score_input_column = input_column, score_id_column = id_column,
               score_target_column = target, score_run_dir = run_dir,
               score_layers = ls,
               score_wandb_config = make_metadata target correlate corr num_examples run_id,
               score_reduction_fns = fns, score_kwargs = kw\<rparr>)
            (score env
              \<lparr>score_model_arg = model, score_dp = lz_mask dp (split_mask data split),
               score_input_column = input_column, score_id_column = id_column,
               score_target_column = target, score_run_dir = run_dir,
               score_layers = ls,
               score_wandb_config = make_metadata target correlate corr num_examples run_id,
               score_reduction_fns = fns, score_kwargs = kw\<rparr>))
          (\<lambda>score_dp.
             ebind (elift (getitem_columns score_dp
                      ([id_column, target, correlate, ''split''] @ new_columns score_dp dp)))
               (\<lambda>selected. ereturn (selected, make_metadata target correlate corr num_examples run_id)))
        = (Inr (selected, md), tr)"
    by (auto simp: score_model_def ebind_elift Let_def split: sum.splits)
  define sc where "sc = \<lparr>score_model_arg = model, score_dp = lz_mask dp (split_mask data split),
               score_input_column = input_column, score_id_column = id_column,
               score_target_column = target, score_run_dir = run_dir,
               score_layers = ls,
               score_wandb_config = make_metadata target correlate corr num_examples run_id,
               score_reduction_fns = fns, score_kwargs = kw\<rparr>"
  from rest obtain scored where
    scored: "score env sc = Inr scored" and tr: "tr = [Call_score sc]" and
    sel: "getitem_columns scored
            ([id_column, target, correlate, ''split''] @ new_columns scored dp) = Inr selected"
    unfolding sc_def [symmetric]
    by (auto simp: ebind_ecall ebind_elift fst_ereturn snd_ereturn split: sum.splits)
  from data obtain k where k: "index_of ''split'' (columns dp) = Some k"
    and data_eq: "data = map (\<lambda>r. r ! k) (rows dp)"
    by (auto simp: getitem_column_def split: option.splits)
  have cols: "columns (score_dp sc) = columns dp"
    by (simp add: sc_def lz_mask_columns)
  have rws: "rows (score_dp sc) =
       filter (\<lambda>r. case split of
                     Split_str s \<Rightarrow> r ! k = PyStr s
                   | Split_collection ss \<Rightarrow> r ! k \<in> set (map PyStr ss)) (rows dp)"
  proof (cases split)
    case (Split_str s)
    then show ?thesis
      by (simp add: sc_def split_mask_def data_eq comp_def lz_mask_rows [of dp "\<lambda>v. v = PyStr s" k])
  next
    case (Split_collection ss)
    then show ?thesis
      by (simp add: sc_def split_mask_def data_eq comp_def
            lz_mask_rows [of dp "\<lambda>v. v \<in> PyStr ` set ss" k])
  qed
  have out: "columns selected = [id_column, target, correlate, ''split''] @ new_columns scored dp"
    using getitem_columns_columns [OF sel] .
  then have set_out: "set (columns selected) =
       {id_column, target, correlate, ''split''} \<union> (set (columns scored) - set (columns dp))"
    by (auto simp: set_new_columns)
  then have "set (columns selected) \<inter> set (columns dp) \<subseteq> {id_column, target, correlate, ''split''}"
    by auto
  with k tr scored cols rws out set_out show ?thesis
    by blast
qed

theorem score_model_rows_and_columns_witness:
  "\<exists>selected md sc.
     score_model example_score_env example_dp 0 ''y'' ''z'' (PyFloat (4 / 5)) (PyInt 2)
       (Split_collection [''test'', ''valid'']) ''input'' ''file''
       (Some [(''l4'', ''model.layer4'')]) (Some [''max'', ''mean'']) (Some ''/runs/42'') [] =
       (Inr (selected, md), [Call_score sc]) \<and>
     rows (score_dp sc) =
       [[PyStr ''a'', PyInt 1, PyInt 0, PyStr ''test'', PyInt 5],
        [PyStr ''c'', PyInt 1, PyInt 1, PyStr ''valid'', PyInt 7]] \<and>
     columns selected = [''file'', ''y'', ''z'', ''split'', ''prob''] \<and>
     set (columns selected) \<inter> set (columns example_dp) \<subseteq> {''file'', ''y'', ''z'', ''split''}"
proof -
  from score_model_rows_and_columns [OF example_score_run]
  have "set (columns \<lparr>columns = [''file'', ''y'', ''z'', ''split'', ''prob''],
           rows = [[PyStr ''a'', PyInt 1, PyInt 0, PyStr ''test'', PyInt 9],
                   [PyStr ''c'', PyInt 1, PyInt 1, PyStr ''valid'', PyInt 9]]\<rparr>)
        \<inter> set (columns example_dp) \<subseteq> {''file'', ''y'', ''z'', ''split''}"
    by blast
  with example_score_run show ?thesis
    by simp
qed

section \<open>\<open>train_linear_slices\<close>: the grid submitted\<close>

lemma fst_ecall: "fst (ecall ev r) = r"
  by (simp add: ecall_def)

lemma snd_ecall: "snd (ecall ev r) = [ev]"
  by (simp add: ecall_def)

lemma linspace_negative:
  "num < 0 \<Longrightarrow> linspace start stop num = Inl (ValueError ''Number of samples must be non-negative.'')"
  by (simp add: linspace_def)

lemma linspace_one: "linspace start stop 1 = Inr [start]"
  by (simp add: linspace_def)

lemma linspace_zero: "linspace start stop 0 = Inr []"
  by (simp add: linspace_def)

lemma linspace_many:
  assumes "2 \<le> num"
  shows "linspace start stop num =
     Inr (map (\<lambda>i. rat_of_nat i * ((stop - start) / rat_of_int (num - 1)) + start) [0..<nat num])"
proof -
  let ?f = "\<lambda>i. rat_of_nat i * ((stop - start) / rat_of_int (num - 1)) + start"
  let ?n = "nat num"
  have n: "0 < ?n" "rat_of_nat (?n - 1) = rat_of_int (num - 1)" "rat_of_int (num - 1) \<noteq> 0"
    using assms by (simp_all add: of_nat_diff)
  have last: "?f (?n - 1) = stop"
    using n by simp
  have "(map ?f [0..<?n])[?n - 1 := stop] = map ?f [0..<?n]"
  proof (rule nth_equalityI)
    show "length ((map ?f [0..<?n])[?n - 1 := stop]) = length (map ?f [0..<?n])"
      by simp
  next
    fix i
    assume "i < length ((map ?f [0..<?n])[?n - 1 := stop])"
    then have i: "i < ?n"
      by simp
    show "(map ?f [0..<?n])[?n - 1 := stop] ! i = map ?f [0..<?n] ! i"
    proof (cases "i = ?n - 1")
      case True
      with i last show ?thesis
        by (simp del: of_nat_diff)
    next
      case False
      with i show ?thesis
        by simp
    qed
  qed
  with assms show ?thesis
    by (simp add: linspace_def Let_def)
qed

lemma linspace_length: "0 \<le> num \<Longrightarrow> linspace start stop num = Inr ys \<Longrightarrow> length ys = nat num"
  by (auto simp: linspace_def Let_def split: if_splits)

lemma linspace_distinct:
  assumes "linspace start stop num = Inr ys" and "start \<noteq> stop \<or> num \<le> 1"
  shows "distinct ys"
proof (cases "2 \<le> num")
  case True
  with assms have step: "(stop - start) / rat_of_int (num - 1) \<noteq> 0"
    by simp
  have "inj_on (\<lambda>i. rat_of_nat i * ((stop - start) / rat_of_int (num - 1)) + start) (set [0..<nat num])"
    using step by (auto simp: inj_on_def)
  then have "distinct (map (\<lambda>i. rat_of_nat i * ((stop - start) / rat_of_int (num - 1)) + start)
      [0..<nat num])"
    by (simp add: distinct_map)
  with assms(1) linspace_many [OF True, of start stop] show ?thesis
    by simp
next
  case False
  then consider "num < 0" | "num = 0" | "num = 1"
    by linarith
  then show ?thesis
    using assms(1) by cases (auto simp: linspace_negative linspace_zero linspace_one)
qed

text \<open>
  Claim C10, amended. After \<open>ray.init\<close>, \<open>train_linear_slices\<close> submits one
  \<open>tune.run\<close> whose two grids are the pairs as given and
  \<open>np.linspace(0, max_corr, num_corrs)\<close>; a negative \<open>num_corrs\<close> raises ValueError
  instead. The correlation grid has \<open>num_corrs\<close> values: for \<open>num_corrs \<ge> 2\<close> the
  evenly spaced \<open>i * max_corr / (num_corrs - 1)\<close> (floats idealised as rationals), from 0
  to \<open>max_corr\<close> inclusive; for \<open>num_corrs = 1\<close> the value 0 alone. The configurations
  of one sample are the Cartesian product, \<open>num_corrs * len(target_correlate_pairs)\<close>
  with multiplicity; they are distinct when the pairs are distinct and \<open>max_corr \<noteq> 0\<close>
  or \<open>num_corrs \<le> 1\<close>.
\<close>

theorem train_linear_slices_grid:
  "ray_init env 4 32 = Inr () \<Longrightarrow>
   (num_corrs < 0 \<longrightarrow>
      train_linear_slices env dp_run_id pairs input_column id_column max_corr num_corrs
        num_examples num_samples run_dir kw =
        (Inl (ValueError ''Number of samples must be non-negative.''), [Call_ray_init 4 32])) \<and>
   (0 \<le> num_corrs \<longrightarrow>
      (\<exists>rc. take 2 (snd (train_linear_slices env dp_run_id pairs input_column id_column max_corr
                          num_corrs num_examples num_samples run_dir kw)) =
               [Call_ray_init 4 32, Call_tune_run rc] \<and>
            config_target_correlate rc = pairs \<and>
            length (config_corr rc) = nat num_corrs \<and>
            (num_corrs = 1 \<longrightarrow> config_corr rc = [0]) \<and>
            (2 \<le> num_corrs \<longrightarrow>
               config_corr rc =
                 map (\<lambda>i. rat_of_nat i * (max_corr / rat_of_int (num_corrs - 1))) [0..<nat num_corrs] \<and>
               hd (config_corr rc) = 0 \<and> last (config_corr rc) = max_corr) \<and>
            grid_search_space rc = List.product (config_corr rc) pairs \<and>
            length (grid_search_space rc) = nat num_corrs * length pairs \<and>
            ((max_corr \<noteq> 0 \<or> num_corrs \<le> 1) \<and> distinct pairs \<longrightarrow>
               distinct (grid_search_space rc))))"
proof (intro conjI impI)
  assume "ray_init env 4 32 = Inr ()" "num_corrs < 0"
  then show "train_linear_slices env dp_run_id pairs input_column id_column max_corr num_corrs
        num_examples num_samples run_dir kw =
        (Inl (ValueError ''Number of samples must be non-negative.''), [Call_ray_init 4 32])"
    by (simp add: train_linear_slices_def ebind_ecall ebind_elift linspace_negative)
next
  assume ray: "ray_init env 4 32 = Inr ()" and num: "0 \<le> num_corrs"
  then obtain corrs where corrs: "linspace 0 max_corr num_corrs = Inr corrs"
    by (auto simp: linspace_def Let_def)
  define rc where "rc = \<lparr>run_trainable =
                   \<lparr>closure_dp_run_id = dp_run_id, closure_input_column = input_column,
                      closure_id_column = id_column, closure_num_examples = num_examples,
                      closure_kwargs = kw\<rparr>,
                 config_corr = corrs,
                 config_target_correlate = pairs,
                 run_num_samples = num_samples,
                 run_resources_per_trial = [(''gpu'', 1)]\<rparr>"
  have tr: "take 2 (snd (train_linear_slices env dp_run_id pairs input_column id_column max_corr
                          num_corrs num_examples num_samples run_dir kw)) =
               [Call_ray_init 4 32, Call_tune_run rc]"
    by (simp add: train_linear_slices_def ebind_ecall ebind_elift ray corrs Let_def rc_def
          snd_ecall split: sum.splits)
  have len: "length (config_corr rc) = nat num_corrs"
    using linspace_length [OF num corrs] by (simp add: rc_def)
  have one: "num_corrs = 1 \<longrightarrow> config_corr rc = [0]"
    using corrs by (auto simp: rc_def linspace_one)
  have many: "2 \<le> num_corrs \<longrightarrow>
               config_corr rc =
                 map (\<lambda>i. rat_of_nat i * (max_corr / rat_of_int (num_corrs - 1))) [0..<nat num_corrs] \<and>
               hd (config_corr rc) = 0 \<and> last (config_corr rc) = max_corr"
  proof
    assume two: "2 \<le> num_corrs"
    with corrs linspace_many [OF two, of 0 max_corr]
    have eq: "config_corr rc =
        map (\<lambda>i. rat_of_nat i * (max_corr / rat_of_int (num_corrs - 1))) [0..<nat num_corrs]"
      by (simp add: rc_def)
    from two have n: "0 < nat num_corrs" "[0..<nat num_corrs] \<noteq> []"
      "rat_of_nat (nat num_corrs - 1) = rat_of_int (num_corrs - 1)" "rat_of_int (num_corrs - 1) \<noteq> 0"
      by simp_all
    have "hd (config_corr rc) = 0"
      using n by (simp add: eq hd_map)
    moreover have "last (config_corr rc) = max_corr"
      using n by (simp add: eq last_map del: of_nat_diff)
    ultimately show "config_corr rc =
                 map (\<lambda>i. rat_of_nat i * (max_corr / rat_of_int (num_corrs - 1))) [0..<nat num_corrs] \<and>
               hd (config_corr rc) = 0 \<and> last (config_corr rc) = max_corr"
      using eq by simp
  qed
  have space: "grid_search_space rc = List.product (config_corr rc) pairs"
    by (simp add: grid_search_space_def rc_def)
  have count: "length (grid_search_space rc) = nat num_corrs * length pairs"
    using len by (simp add: space)
  have dist: "(max_corr \<noteq> 0 \<or> num_corrs \<le> 1) \<and> distinct pairs \<longrightarrow> distinct (grid_search_space rc)"
  proof
    assume a: "(max_corr \<noteq> 0 \<or> num_corrs \<le> 1) \<and> distinct pairs"
    then have "distinct corrs"
      using linspace_distinct [OF corrs] by auto
    moreover have "config_corr rc = corrs"
      by (simp add: rc_def)
    ultimately show "distinct (grid_search_space rc)"
      using a by (simp only: space distinct_product)
  qed
  have pr: "config_target_correlate rc = pairs"
    by (simp add: rc_def)
  from tr pr len one many space count dist show "\<exists>rc. take 2 (snd (train_linear_slices env dp_run_id pairs input_column id_column max_corr
                          num_corrs num_examples num_samples run_dir kw)) =
               [Call_ray_init 4 32, Call_tune_run rc] \<and>
            config_target_correlate rc = pairs \<and>
            length (config_corr rc) = nat num_corrs \<and>
            (num_corrs = 1 \<longrightarrow> config_corr rc = [0]) \<and>
            (2 \<le> num_corrs \<longrightarrow>
               config_corr rc =
                 map (\<lambda>i. rat_of_nat i * (max_corr / rat_of_int (num_corrs - 1))) [0..<nat num_corrs] \<and>
               hd (config_corr rc) = 0 \<and> last (config_corr rc) = max_corr) \<and>
            grid_search_space rc = List.product (config_corr rc) pairs \<and>
            length (grid_search_space rc) = nat num_corrs * length pairs \<and>
            ((max_corr \<noteq> 0 \<or> num_corrs \<le> 1) \<and> distinct pairs \<longrightarrow>
               distinct (grid_search_space rc))"
    by (intro exI [of _ rc] conjI) assumption+
qed
theorem train_linear_slices_grid_witness:
  "\<exists>rc. take 2 (snd (train_linear_slices example_tune_env 0 [[''y'', ''z''], [''y'', ''w'']]
                     ''input'' ''file'' (4 / 5) 3 (PyFloat 30000) (PyInt 1) (Some ''/runs/1'') [])) =
          [Call_ray_init 4 32, Call_tune_run rc] \<and>
        config_corr rc = [0, 2 / 5, 4 / 5] \<and>
        length (grid_search_space rc) = 6 \<and>
        distinct (grid_search_space rc)"
proof -
  have ray: "ray_init example_tune_env 4 32 = Inr ()"
    by (simp add: example_tune_env_def)
  have grid: "map (\<lambda>i. rat_of_nat i * ((4 / 5) / rat_of_int (3 - 1))) [0..<nat 3] = [0, 2 / 5, 4 / 5]"
    by code_simp
  from train_linear_slices_grid [OF ray, of 3 0 "[[''y'', ''z''], [''y'', ''w'']]" "''input''"
      "''file''" "4 / 5" "PyFloat 30000" "PyInt 1" "Some ''/runs/1''" "[]"]
  obtain rc where
    "take 2 (snd (train_linear_slices example_tune_env 0 [[''y'', ''z''], [''y'', ''w'']]
                     ''input'' ''file'' (4 / 5) 3 (PyFloat 30000) (PyInt 1) (Some ''/runs/1'') [])) =
          [Call_ray_init 4 32, Call_tune_run rc]"
    "config_corr rc = map (\<lambda>i. rat_of_nat i * ((4 / 5) / rat_of_int (3 - 1))) [0..<nat 3]"
    "length (grid_search_space rc) = nat 3 * length [[''y'', ''z''], [''y'', ''w'']]"
    "distinct (grid_search_space rc)"
    by auto
  with grid show ?thesis
    by (intro exI [of _ rc]) simp
qed

theorem train_linear_slices_grid_counterexample:
  "snd (train_linear_slices example_tune_env 0 [[''y'', ''z'']] ''input'' ''file'' (4 / 5) 1
          (PyFloat 30000) (PyInt 1) (Some ''/runs/1'') []) =
     [Call_ray_init 4 32, Call_tune_run (example_tune_call [0]), Call_dataframe 0] \<and>
   4 / 5 \<notin> set (config_corr (example_tune_call [0])) \<and>
   snd (train_linear_slices example_tune_env 0 [[''y'', ''z'']] ''input'' ''file'' 0 2
          (PyFloat 30000) (PyInt 1) (Some ''/runs/1'') []) =
     [Call_ray_init 4 32, Call_tune_run (example_tune_call [0, 0]), Call_dataframe 0] \<and>
   grid_search_space (example_tune_call [0, 0]) = [(0, [''y'', ''z'']), (0, [''y'', ''z''])] \<and>
   \<not> distinct (grid_search_space (example_tune_call [0, 0]))"
proof -
  have two: "linspace 0 0 2 = Inr [0, 0]"
    by code_simp
  show ?thesis
    by (simp add: train_linear_slices_def ebind_ecall ebind_elift linspace_one two Let_def
          example_tune_env_def example_tune_call_def fst_ecall snd_ecall grid_search_space_def)
qed

section \<open>The scripts: which collaborators are called, in which order\<close>

lemma nw_ereturn: "names_within (ereturn x) []"
  by (simp add: names_within_def ereturn_def)

lemma nw_bind:
  assumes "\<And>x. names_within (f x) ns"
  shows "names_within (ebind m f) (map call_name (snd m) @ ns)"
  using assms by (auto simp: names_within_def fst_ebind snd_ebind split: sum.splits)

lemma nw_xcall:
  assumes "call_name c = n" and "\<And>x. names_within (f x) ns"
  shows "names_within (ebind (xcall env c) f) (n # ns)"
  using nw_bind [of f ns "xcall env c", OF assms(2)] assms(1)
  by (simp add: xcall_def ecall_def)

lemma nw_print:
  assumes "\<And>x. names_within (f x) ns"
  shows "names_within (ebind (print_call xs) f) (''print'' # ns)"
  using nw_bind [of f ns "print_call xs", OF assms]
  by (simp add: print_call_def ecall_def)

lemma nw_elift:
  assumes "\<And>x. names_within (f x) ns"
  shows "names_within (ebind (elift r) f) ns"
  using nw_bind [of f ns "elift r", OF assms]
  by (simp add: elift_def)

lemma nw_raise: "names_within (ebind (elift (Inl e)) f) []"
  by (simp add: names_within_def ebind_elift)

lemma nw_wordnet:
  assumes "\<And>x. names_within (f x) ns"
  shows "names_within (ebind (ensure_wordnet env) f) (wordnet_names env @ ns)"
  unfolding wordnet_names_def using assms by (rule nw_bind)

lemma nw_bind_case_prod:
  assumes "\<And>a b. names_within (ebind (g a b) f) ns"
  shows "names_within (ebind (case_prod g p) f) ns"
  using assms by (cases p) simp

lemma nw_ereturn_bind:
  assumes "names_within (f x) ns"
  shows "names_within (ebind (ereturn x) f) ns"
  using assms by (simp add: ebind_def ereturn_def split: prod.splits)

lemmas nw_rules =
  nw_xcall nw_print nw_raise nw_elift nw_wordnet nw_bind_case_prod nw_ereturn_bind nw_ereturn

lemmas call_defs =
  get_imagenet_dp_def split_dp_def get_wiki_words_def embed_words_def embed_images_bit_def
  embed_images_imagenet_def embed_images_random_def embed_images_clip_def
  imagenet_collect_rare_def imagenet_collect_noisy_def imagenet_train_settings_def
  imagenet_score_settings_def grid_search_def imagenet_run_sdms_def score_sdms_def
  synthetic_collect_rare_def synthetic_collect_noisy_def synthetic_run_sdms_def
  synthetic_score_settings_def find_wordnet_def download_wordnet_def


text \<open>The callees of the synthetic script, for each value of the two flags it reads.\<close>

lemma synthetic_names_synthetic_sanity:
  assumes "synthetic args" and "sanity args"
  shows "names_within (synthetic_method_script env args)
     (''print'' # ''torch.cuda.device_count'' # ''psutil.cpu_count'' # ''print'' # ''ray.init'' #
      (wordnet_names env @
       [''get_imagenet_dp'', ''split_dp'', ''get_wiki_words'', ''embed_words'',
        ''embed_images'', ''embed_images'', ''embed_images'',
        ''collect_settings'', ''collect_settings'', ''concat_settings'',
        ''load'', ''len'', ''print'', ''random_filter_settings'',
        ''synthetic_score_settings'', ''tune.grid_search'', ''run_sdms'', ''score_sdms'']))"
  unfolding synthetic_method_script_def Let_def
  apply (simp only: assms if_True)
  apply ((rule nw_rules; (simp add: call_defs; fail)?)+)
  done

lemma synthetic_names_synthetic:
  assumes "synthetic args" and "\<not> sanity args"
  shows "names_within (synthetic_method_script env args)
     (''print'' # ''torch.cuda.device_count'' # ''psutil.cpu_count'' # ''print'' # ''ray.init'' #
      (wordnet_names env @
       [''get_imagenet_dp'', ''split_dp'', ''get_wiki_words'', ''embed_words'',
        ''embed_images'', ''embed_images'', ''embed_images'',
        ''collect_settings'', ''collect_settings'', ''concat_settings'',
        ''load'', ''len'', ''print'',
        ''synthetic_score_settings'', ''tune.grid_search'', ''run_sdms'', ''score_sdms'']))"
  unfolding synthetic_method_script_def Let_def
  apply (simp only: assms if_True if_False)
  apply ((rule nw_rules; (simp add: call_defs; fail)?)+)
  done

lemma synthetic_names_sanity:
  assumes "\<not> synthetic args" and "sanity args"
  shows "names_within (synthetic_method_script env args)
     (''print'' # ''torch.cuda.device_count'' # ''psutil.cpu_count'' # ''print'' # ''ray.init'' #
      (wordnet_names env @
       [''get_imagenet_dp'', ''split_dp'', ''get_wiki_words'', ''embed_words'',
        ''embed_images'', ''embed_images'', ''embed_images'',
        ''collect_settings'', ''collect_settings'', ''concat_settings'',
        ''load'', ''len'', ''print'', ''random_filter_settings'']))"
  unfolding synthetic_method_script_def Let_def
  apply (simp only: assms if_True if_False)
  apply ((rule nw_rules; (simp add: call_defs; fail)?)+)
  done

lemma synthetic_names_neither:
  assumes "\<not> synthetic args" and "\<not> sanity args"
  shows "names_within (synthetic_method_script env args)
     (''print'' # ''torch.cuda.device_count'' # ''psutil.cpu_count'' # ''print'' # ''ray.init'' #
      (wordnet_names env @
       [''get_imagenet_dp'', ''split_dp'', ''get_wiki_words'', ''embed_words'',
        ''embed_images'', ''embed_images'', ''embed_images'',
        ''collect_settings'', ''collect_settings'', ''concat_settings'',
        ''load'', ''len'', ''print'']))"
  unfolding synthetic_method_script_def Let_def
  apply (simp only: assms if_True if_False)
  apply ((rule nw_rules; (simp add: call_defs; fail)?)+)
  done




lemma wordnet_names_cases:
  "wordnet_names env = [''nltk.data.find''] \<or>
   wordnet_names env = [''nltk.data.find'', ''nltk.download'']"
  by (simp add: wordnet_names_def ensure_wordnet_def xcall_def etry_ecall ebind_ecall
        fst_ereturn snd_ereturn find_wordnet_def download_wordnet_def
      split: sum.splits)



lemma nw_complete:
  assumes "names_within m ns" and "fst m = Inr x"
  shows "map call_name (snd m) = ns"
  using assms by (simp add: names_within_def)




lemma synthetic_never_returns_without_flag:
  assumes "\<not> synthetic args"
  shows "fst (synthetic_method_script env args) \<noteq> Inr u"
proof -
  have raise: "fst (ebind (elift (Inl e)) f) \<noteq> Inr u" for e and f :: "'a \<Rightarrow> (call, 'b) eff" and u
    by (simp add: ebind_elift)
  have step: "fst (ebind m f) \<noteq> Inr u" if "\<And>x. fst (f x) \<noteq> Inr u"
    for m :: "(call, 'a) eff" and f :: "'a \<Rightarrow> (call, 'b) eff" and u
    using that by (simp add: fst_ebind split: sum.splits)
  show ?thesis
    unfolding synthetic_method_script_def Let_def
    apply (simp only: assms if_False)
    apply (rule raise | rule step)+
    done
qed



lemma synthetic_ok_run:
  "fst (synthetic_method_script ok_env
     \<lparr>worker_idx = 0, num_workers = 2, sanity = False, synthetic = True\<rparr>) = Inr ()"
  "map call_name (snd (synthetic_method_script ok_env
     \<lparr>worker_idx = 0, num_workers = 2, sanity = False, synthetic = True\<rparr>)) =
     [''print'', ''torch.cuda.device_count'', ''psutil.cpu_count'', ''print'', ''ray.init'',
      ''nltk.data.find'',
      ''get_imagenet_dp'', ''split_dp'', ''get_wiki_words'', ''embed_words'',
      ''embed_images'', ''embed_images'', ''embed_images'',
      ''collect_settings'', ''collect_settings'', ''concat_settings'',
      ''load'', ''len'', ''print'',
      ''synthetic_score_settings'', ''tune.grid_search'', ''run_sdms'', ''score_sdms'']"
  by code_simp+


section \<open>The synthetic flag\<close>

lemma stage_call_names:
  "map call_name (filter (\<lambda>c. stage c = Some k) tr) =
   filter (\<lambda>n. name_stage n = Some k) (map call_name tr)"
  by (simp add: filter_map comp_def stage_def)

lemma nw_filter_prefix:
  assumes "names_within m ns"
  shows "prefix (map call_name (filter (\<lambda>c. stage c = Some k) (snd m)))
           (filter (\<lambda>n. name_stage n = Some k) ns)"
proof -
  from assms obtain zs where "ns = map call_name (snd m) @ zs"
    by (auto simp: names_within_def prefix_def)
  then show ?thesis
    by (simp add: stage_call_names)
qed

lemma nw_filter_complete:
  assumes "names_within m ns" and "fst m = Inr x"
  shows "map call_name (filter (\<lambda>c. stage c = Some k) (snd m)) =
           filter (\<lambda>n. name_stage n = Some k) ns"
  using nw_complete [OF assms] by (simp add: stage_call_names)

lemma name_stage_values:
  "name_stage ''print'' = None"
  "name_stage ''torch.cuda.device_count'' = None"
  "name_stage ''psutil.cpu_count'' = None"
  "name_stage ''ray.init'' = None"
  "name_stage ''nltk.data.find'' = None"
  "name_stage ''nltk.download'' = None"
  "name_stage ''load'' = None"
  "name_stage ''len'' = None"
  "name_stage ''np.random.choice'' = None"
  "name_stage ''lz.__getitem__'' = None"
  "name_stage ''tune.grid_search'' = None"
  "name_stage ''get_imagenet_dp'' = Some 1"
  "name_stage ''split_dp'' = Some 1"
  "name_stage ''get_wiki_words'' = Some 2"
  "name_stage ''embed_words'' = Some 2"
  "name_stage ''embed_images'' = Some 2"
  "name_stage ''collect_settings'' = Some 3"
  "name_stage ''concat_settings'' = Some 3"
  "name_stage ''random_filter_settings'' = Some 3"
  "name_stage ''synthetic_score_settings'' = Some 4"
  "name_stage ''train_settings'' = Some 4"
  "name_stage ''score_settings'' = Some 4"
  "name_stage ''run_sdms'' = Some 5"
  "name_stage ''score_sdms'' = Some 5"
  by (simp_all add: name_stage_def)

lemma wordnet_late_stages: "filter (\<lambda>n. name_stage n = Some k) (wordnet_names env) = []"
  using wordnet_names_cases [of env] by (auto simp: name_stage_values)

lemma synthetic_late_stages:
  "filter (\<lambda>n. name_stage n = Some 4)
     (''print'' # ''torch.cuda.device_count'' # ''psutil.cpu_count'' # ''print'' # ''ray.init'' #
      (wordnet_names env @
       [''get_imagenet_dp'', ''split_dp'', ''get_wiki_words'', ''embed_words'',
        ''embed_images'', ''embed_images'', ''embed_images'',
        ''collect_settings'', ''collect_settings'', ''concat_settings'',
        ''load'', ''len'', ''print''] @ rest)) =
     filter (\<lambda>n. name_stage n = Some 4) rest"
  "filter (\<lambda>n. name_stage n = Some 5)
     (''print'' # ''torch.cuda.device_count'' # ''psutil.cpu_count'' # ''print'' # ''ray.init'' #
      (wordnet_names env @
       [''get_imagenet_dp'', ''split_dp'', ''get_wiki_words'', ''embed_words'',
        ''embed_images'', ''embed_images'', ''embed_images'',
        ''collect_settings'', ''collect_settings'', ''concat_settings'',
        ''load'', ''len'', ''print''] @ rest)) =
     filter (\<lambda>n. name_stage n = Some 5) rest"
  by (simp_all add: wordnet_late_stages name_stage_values)

lemma synthetic_stage_calls:
  assumes "synthetic args"
  shows "prefix (map call_name (filter (\<lambda>c. stage c = Some 4)
                   (snd (synthetic_method_script env args)))) [''synthetic_score_settings'']"
    and "fst (synthetic_method_script env args) = Inr () \<Longrightarrow>
         map call_name (filter (\<lambda>c. stage c = Some 4) (snd (synthetic_method_script env args))) =
           [''synthetic_score_settings'']"
    and "fst (synthetic_method_script env args) = Inr () \<Longrightarrow>
         map call_name (filter (\<lambda>c. stage c = Some 5) (snd (synthetic_method_script env args))) =
           [''run_sdms'', ''score_sdms'']"
proof -
  define tail where "tail = (if sanity args then [''random_filter_settings''] else []) @
      [''synthetic_score_settings'', ''tune.grid_search'', ''run_sdms'', ''score_sdms'']"
  have nw: "names_within (synthetic_method_script env args)
     (''print'' # ''torch.cuda.device_count'' # ''psutil.cpu_count'' # ''print'' # ''ray.init'' #
      (wordnet_names env @
       [''get_imagenet_dp'', ''split_dp'', ''get_wiki_words'', ''embed_words'',
        ''embed_images'', ''embed_images'', ''embed_images'',
        ''collect_settings'', ''collect_settings'', ''concat_settings'',
        ''load'', ''len'', ''print''] @ tail))"
    using synthetic_names_synthetic_sanity [OF assms, of env]
      synthetic_names_synthetic [OF assms, of env]
    by (cases "sanity args") (simp_all add: tail_def)
  have four: "filter (\<lambda>n. name_stage n = Some 4) tail = [''synthetic_score_settings'']"
    and five: "filter (\<lambda>n. name_stage n = Some 5) tail = [''run_sdms'', ''score_sdms'']"
    by (simp_all add: tail_def name_stage_values)
  from nw_filter_prefix [OF nw, of 4]
  show "prefix (map call_name (filter (\<lambda>c. stage c = Some 4)
                   (snd (synthetic_method_script env args)))) [''synthetic_score_settings'']"
    by (simp only: synthetic_late_stages four)
  show "map call_name (filter (\<lambda>c. stage c = Some 4) (snd (synthetic_method_script env args))) =
           [''synthetic_score_settings'']"
    if "fst (synthetic_method_script env args) = Inr ()"
    using nw_filter_complete [OF nw that, of 4]
    by (simp only: synthetic_late_stages four)
  show "map call_name (filter (\<lambda>c. stage c = Some 5) (snd (synthetic_method_script env args))) =
           [''run_sdms'', ''score_sdms'']"
    if "fst (synthetic_method_script env args) = Inr ()"
    using nw_filter_complete [OF nw that, of 5]
    by (simp only: synthetic_late_stages five)
qed

lemma no_stage_calls_without_flag:
  assumes "\<not> synthetic args"
  shows "filter (\<lambda>c. stage c = Some 4) (snd (synthetic_method_script env args)) = []"
    and "filter (\<lambda>c. stage c = Some 5) (snd (synthetic_method_script env args)) = []"
proof -
  define tail where "tail = (if sanity args then [''random_filter_settings''] else [])"
  have nw: "names_within (synthetic_method_script env args)
     (''print'' # ''torch.cuda.device_count'' # ''psutil.cpu_count'' # ''print'' # ''ray.init'' #
      (wordnet_names env @
       [''get_imagenet_dp'', ''split_dp'', ''get_wiki_words'', ''embed_words'',
        ''embed_images'', ''embed_images'', ''embed_images'',
        ''collect_settings'', ''collect_settings'', ''concat_settings'',
        ''load'', ''len'', ''print''] @ tail))"
    using synthetic_names_sanity [OF assms, of env] synthetic_names_neither [OF assms, of env]
    by (cases "sanity args") (simp_all add: tail_def)
  have none: "filter (\<lambda>n. name_stage n = Some 4) tail = []"
    "filter (\<lambda>n. name_stage n = Some 5) tail = []"
    by (simp_all add: tail_def name_stage_values)
  from nw_filter_prefix [OF nw, of 4]
  have "map call_name (filter (\<lambda>c. stage c = Some 4) (snd (synthetic_method_script env args))) = []"
    by (simp only: synthetic_late_stages none prefix_Nil)
  then show "filter (\<lambda>c. stage c = Some 4) (snd (synthetic_method_script env args)) = []"
    by simp
  from nw_filter_prefix [OF nw, of 5]
  have "map call_name (filter (\<lambda>c. stage c = Some 5) (snd (synthetic_method_script env args))) = []"
    by (simp only: synthetic_late_stages none prefix_Nil)
  then show "filter (\<lambda>c. stage c = Some 5) (snd (synthetic_method_script env args)) = []"
    by simp
qed

text \<open>
  Claim C2, amended. With the flag true, the only call to the train/score harness is
  \<open>synthetic_score_settings\<close> (\<open>train_settings\<close> and \<open>score_settings\<close> are never
  called), and a run that returns has made it and then \<open>run_sdms\<close> and \<open>score_sdms\<close>.
  With the flag false the script makes no call to the train/score harness nor to the
  discovery stage, and it never returns: the \<open>else\<close> branch raises ValueError.
\<close>

theorem synthetic_flag_selects_scoring:
  "(synthetic args \<longrightarrow>
      prefix (map call_name (filter (\<lambda>c. stage c = Some 4)
                (snd (synthetic_method_script env args)))) [''synthetic_score_settings''] \<and>
      (fst (synthetic_method_script env args) = Inr () \<longrightarrow>
         map call_name (filter (\<lambda>c. stage c = Some 4) (snd (synthetic_method_script env args))) =
           [''synthetic_score_settings''] \<and>
         map call_name (filter (\<lambda>c. stage c = Some 5) (snd (synthetic_method_script env args))) =
           [''run_sdms'', ''score_sdms''])) \<and>
   (\<not> synthetic args \<longrightarrow>
      fst (synthetic_method_script env args) \<noteq> Inr () \<and>
      filter (\<lambda>c. stage c = Some 4) (snd (synthetic_method_script env args)) = [] \<and>
      filter (\<lambda>c. stage c = Some 5) (snd (synthetic_method_script env args)) = [])"
  using synthetic_stage_calls [of args env] synthetic_never_returns_without_flag [of args env]
    no_stage_calls_without_flag [of args env]
  by blast

lemma synthetic_unset_run:
  "fst (synthetic_method_script ok_env
     \<lparr>worker_idx = 0, num_workers = 2, sanity = False, synthetic = False\<rparr>) = Inl (ValueError [])"
  "map call_name (snd (synthetic_method_script ok_env
     \<lparr>worker_idx = 0, num_workers = 2, sanity = False, synthetic = False\<rparr>)) =
     [''print'', ''torch.cuda.device_count'', ''psutil.cpu_count'', ''print'', ''ray.init'',
      ''nltk.data.find'',
      ''get_imagenet_dp'', ''split_dp'', ''get_wiki_words'', ''embed_words'',
      ''embed_images'', ''embed_images'', ''embed_images'',
      ''collect_settings'', ''collect_settings'', ''concat_settings'',
      ''load'', ''len'', ''print'']"
  by code_simp+

theorem synthetic_flag_selects_scoring_witness:
  "synthetic \<lparr>worker_idx = 0, num_workers = 2, sanity = False, synthetic = True\<rparr> \<and>
   fst (synthetic_method_script ok_env
     \<lparr>worker_idx = 0, num_workers = 2, sanity = False, synthetic = True\<rparr>) = Inr () \<and>
   map call_name (filter (\<lambda>c. stage c = Some 4) (snd (synthetic_method_script ok_env
     \<lparr>worker_idx = 0, num_workers = 2, sanity = False, synthetic = True\<rparr>))) =
     [''synthetic_score_settings''] \<and>
   map call_name (filter (\<lambda>c. stage c = Some 5) (snd (synthetic_method_script ok_env
     \<lparr>worker_idx = 0, num_workers = 2, sanity = False, synthetic = True\<rparr>))) =
     [''run_sdms'', ''score_sdms''] \<and>
   \<not> synthetic \<lparr>worker_idx = 0, num_workers = 2, sanity = False, synthetic = False\<rparr> \<and>
   fst (synthetic_method_script ok_env
     \<lparr>worker_idx = 0, num_workers = 2, sanity = False, synthetic = False\<rparr>) \<noteq> Inr () \<and>
   filter (\<lambda>c. stage c = Some 4) (snd (synthetic_method_script ok_env
     \<lparr>worker_idx = 0, num_workers = 2, sanity = False, synthetic = False\<rparr>)) = []"
  using synthetic_flag_selects_scoring [of
      "\<lparr>worker_idx = 0, num_workers = 2, sanity = False, synthetic = True\<rparr>" ok_env]
    synthetic_flag_selects_scoring [of
      "\<lparr>worker_idx = 0, num_workers = 2, sanity = False, synthetic = False\<rparr>" ok_env]
    synthetic_ok_run(1)
  by simp

theorem synthetic_flag_selects_scoring_counterexample:
  "fst (synthetic_method_script ok_env
     \<lparr>worker_idx = 0, num_workers = 2, sanity = False, synthetic = False\<rparr>) = Inl (ValueError []) \<and>
   map call_name (snd (synthetic_method_script ok_env
     \<lparr>worker_idx = 0, num_workers = 2, sanity = False, synthetic = False\<rparr>)) =
     [''print'', ''torch.cuda.device_count'', ''psutil.cpu_count'', ''print'', ''ray.init'',
      ''nltk.data.find'',
      ''get_imagenet_dp'', ''split_dp'', ''get_wiki_words'', ''embed_words'',
      ''embed_images'', ''embed_images'', ''embed_images'',
      ''collect_settings'', ''collect_settings'', ''concat_settings'',
      ''load'', ''len'', ''print''] \<and>
   ''train_settings'' \<notin> set (map call_name (snd (synthetic_method_script ok_env
     \<lparr>worker_idx = 0, num_workers = 2, sanity = False, synthetic = False\<rparr>))) \<and>
   ''score_settings'' \<notin> set (map call_name (snd (synthetic_method_script ok_env
     \<lparr>worker_idx = 0, num_workers = 2, sanity = False, synthetic = False\<rparr>)))"
  by (simp add: synthetic_unset_run)

section \<open>The scripts: a missing wordnet corpus\<close>

lemma fst_ebind_pair:
  "fst (ebind (r, tr) f) = (case r of Inl e \<Rightarrow> Inl e | Inr x \<Rightarrow> fst (f x))"
  by (simp add: ebind_def split: prod.splits sum.splits)

lemma snd_ebind_pair:
  "snd (ebind (r, tr) f) = tr @ (case r of Inl e \<Rightarrow> [] | Inr x \<Rightarrow> snd (f x))"
  by (simp add: ebind_def split: prod.splits sum.splits)

lemma ensure_wordnet_found:
  "env find_wordnet = Inr x \<Longrightarrow> ensure_wordnet env = (Inr (), [find_wordnet])"
  by (simp add: ensure_wordnet_def xcall_def etry_ecall fst_ereturn snd_ereturn)

lemma ensure_wordnet_other_error:
  "env find_wordnet = Inl e \<Longrightarrow> \<not> isinstance_LookupError e \<Longrightarrow>
   ensure_wordnet env = (Inl e, [find_wordnet])"
  by (simp add: ensure_wordnet_def xcall_def etry_ecall)

lemma ensure_wordnet_download:
  "env find_wordnet = Inl e \<Longrightarrow> isinstance_LookupError e \<Longrightarrow>
   ensure_wordnet env =
     ((case env download_wordnet of Inl e' \<Rightarrow> Inl e' | Inr d \<Rightarrow> Inr ()),
      [find_wordnet, download_wordnet])"
  by (simp add: ensure_wordnet_def xcall_def etry_ecall ebind_ecall fst_ereturn snd_ereturn
      split: sum.splits)

lemma imagenet_missing_corpus:
  assumes dc: "env (Call ''torch.cuda.device_count'' [] []) = Inr g"
    and cc: "env (Call ''psutil.cpu_count'' [] []) = Inr c"
    and find: "env find_wordnet = Inl e"
  shows "\<not> isinstance_LookupError e \<Longrightarrow>
         imagenet_script env =
           (Inl e, [Call ''torch.cuda.device_count'' [] [], Call ''psutil.cpu_count'' [] [],
                    Call ''print'' [S ''Found'', g, c] [], find_wordnet])"
    and "isinstance_LookupError e \<Longrightarrow> env download_wordnet = Inl e' \<Longrightarrow>
         imagenet_script env =
           (Inl e', [Call ''torch.cuda.device_count'' [] [], Call ''psutil.cpu_count'' [] [],
                     Call ''print'' [S ''Found'', g, c] [], find_wordnet, download_wordnet])"
    and "isinstance_LookupError e \<Longrightarrow> env download_wordnet = Inr d \<Longrightarrow>
         prefix [Call ''torch.cuda.device_count'' [] [], Call ''psutil.cpu_count'' [] [],
                 Call ''print'' [S ''Found'', g, c] [], find_wordnet, download_wordnet,
                 get_imagenet_dp] (snd (imagenet_script env))"
proof -
  show "imagenet_script env =
           (Inl e, [Call ''torch.cuda.device_count'' [] [], Call ''psutil.cpu_count'' [] [],
                    Call ''print'' [S ''Found'', g, c] [], find_wordnet])"
    if "\<not> isinstance_LookupError e"
    by (rule prod_eqI) (simp_all add: imagenet_script_def fst_ebind_pair snd_ebind_pair xcall_def ecall_def
          print_call_def dc cc
          ensure_wordnet_other_error [of env e, OF find that])
  show "imagenet_script env =
           (Inl e', [Call ''torch.cuda.device_count'' [] [], Call ''psutil.cpu_count'' [] [],
                     Call ''print'' [S ''Found'', g, c] [], find_wordnet, download_wordnet])"
    if "isinstance_LookupError e" and "env download_wordnet = Inl e'"
    by (rule prod_eqI) (simp_all add: imagenet_script_def fst_ebind_pair snd_ebind_pair xcall_def ecall_def
          print_call_def dc cc
          ensure_wordnet_download [of env e, OF find that(1)] that(2))
  show "prefix [Call ''torch.cuda.device_count'' [] [], Call ''psutil.cpu_count'' [] [],
                 Call ''print'' [S ''Found'', g, c] [], find_wordnet, download_wordnet,
                 get_imagenet_dp] (snd (imagenet_script env))"
    if "isinstance_LookupError e" and "env download_wordnet = Inr d"
    by (simp add: imagenet_script_def snd_ebind_pair xcall_def ecall_def print_call_def dc cc
          ensure_wordnet_download [of env e, OF find that(1)] that(2))
qed

lemma synthetic_missing_corpus:
  assumes dc: "env (Call ''torch.cuda.device_count'' [] []) = Inr g"
    and cc: "env (Call ''psutil.cpu_count'' [] []) = Inr (I n)"
    and ray: "env (Call ''ray.init'' []
                [(''num_gpus'', g), (''num_cpus'', I (min n 64)),
                 (''ignore_reinit_error'', B True)]) = Inr r"
    and find: "env find_wordnet = Inl e"
  shows "\<not> isinstance_LookupError e \<Longrightarrow>
         synthetic_method_script env args =
           (Inl e, [Call ''print'' [I (worker_idx args), I (num_workers args)] [],
                    Call ''torch.cuda.device_count'' [] [], Call ''psutil.cpu_count'' [] [],
                    Call ''print'' [S ''Found'', g, I (min n 64)] [],
                    Call ''ray.init'' []
                      [(''num_gpus'', g), (''num_cpus'', I (min n 64)),
                       (''ignore_reinit_error'', B True)],
                    find_wordnet])"
    and "isinstance_LookupError e \<Longrightarrow> env download_wordnet = Inl e' \<Longrightarrow>
         synthetic_method_script env args =
           (Inl e', [Call ''print'' [I (worker_idx args), I (num_workers args)] [],
                     Call ''torch.cuda.device_count'' [] [], Call ''psutil.cpu_count'' [] [],
                     Call ''print'' [S ''Found'', g, I (min n 64)] [],
                     Call ''ray.init'' []
                       [(''num_gpus'', g), (''num_cpus'', I (min n 64)),
                        (''ignore_reinit_error'', B True)],
                     find_wordnet, download_wordnet])"
    and "isinstance_LookupError e \<Longrightarrow> env download_wordnet = Inr d \<Longrightarrow>
         prefix [Call ''print'' [I (worker_idx args), I (num_workers args)] [],
                 Call ''torch.cuda.device_count'' [] [], Call ''psutil.cpu_count'' [] [],
                 Call ''print'' [S ''Found'', g, I (min n 64)] [],
                 Call ''ray.init'' []
                   [(''num_gpus'', g), (''num_cpus'', I (min n 64)),
                    (''ignore_reinit_error'', B True)],
                 find_wordnet, download_wordnet, get_imagenet_dp]
           (snd (synthetic_method_script env args))"
proof -
  show "synthetic_method_script env args =
           (Inl e, [Call ''print'' [I (worker_idx args), I (num_workers args)] [],
                    Call ''torch.cuda.device_count'' [] [], Call ''psutil.cpu_count'' [] [],
                    Call ''print'' [S ''Found'', g, I (min n 64)] [],
                    Call ''ray.init'' []
                      [(''num_gpus'', g), (''num_cpus'', I (min n 64)),
                       (''ignore_reinit_error'', B True)],
                    find_wordnet])"
    if "\<not> isinstance_LookupError e"
    by (rule prod_eqI) (simp_all add: synthetic_method_script_def fst_ebind_pair snd_ebind_pair xcall_def ecall_def
          print_call_def elift_def min64_def dc cc ray
          ensure_wordnet_other_error [of env e, OF find that])
  show "synthetic_method_script env args =
           (Inl e', [Call ''print'' [I (worker_idx args), I (num_workers args)] [],
                     Call ''torch.cuda.device_count'' [] [], Call ''psutil.cpu_count'' [] [],
                     Call ''print'' [S ''Found'', g, I (min n 64)] [],
                     Call ''ray.init'' []
                       [(''num_gpus'', g), (''num_cpus'', I (min n 64)),
                        (''ignore_reinit_error'', B True)],
                     find_wordnet, download_wordnet])"
    if "isinstance_LookupError e" and "env download_wordnet = Inl e'"
    by (rule prod_eqI) (simp_all add: synthetic_method_script_def fst_ebind_pair snd_ebind_pair xcall_def ecall_def
          print_call_def elift_def min64_def dc cc ray
          ensure_wordnet_download [of env e, OF find that(1)] that(2))
  show "prefix [Call ''print'' [I (worker_idx args), I (num_workers args)] [],
                 Call ''torch.cuda.device_count'' [] [], Call ''psutil.cpu_count'' [] [],
                 Call ''print'' [S ''Found'', g, I (min n 64)] [],
                 Call ''ray.init'' []
                   [(''num_gpus'', g), (''num_cpus'', I (min n 64)),
                    (''ignore_reinit_error'', B True)],
                 find_wordnet, download_wordnet, get_imagenet_dp]
           (snd (synthetic_method_script env args))"
    if "isinstance_LookupError e" and "env download_wordnet = Inr d"
    by (simp add: synthetic_method_script_def snd_ebind_pair xcall_def ecall_def print_call_def
          elift_def min64_def dc cc ray
          ensure_wordnet_download [of env e, OF find that(1)] that(2))
qed

text \<open>
  Claim C3, amended. Both scripts recover locally from a missing wordnet corpus. When
  \<open>nltk.data.find("corpora/wordnet")\<close> raises a LookupError, the handler calls
  \<open>nltk.download("wordnet")\<close>: if the download returns, the script continues with
  \<open>get_imagenet_dp\<close>; if the download raises, that exception ends the script. Only an
  exception of \<open>nltk.data.find\<close> that is not a LookupError ends the script at the lookup.
  (The device counts are assumed to return, and for the synthetic script the CPU count to be
  an integer and \<open>ray.init\<close> to return, so that the lookup is reached.)
\<close>

theorem missing_corpus_is_downloaded:
  assumes "env (Call ''torch.cuda.device_count'' [] []) = Inr g"
    and "env (Call ''psutil.cpu_count'' [] []) = Inr c"
    and "env find_wordnet = Inl e"
  shows
    "(if isinstance_LookupError e then
        (case env download_wordnet of
           Inl e' \<Rightarrow>
             imagenet_script env =
               (Inl e', [Call ''torch.cuda.device_count'' [] [], Call ''psutil.cpu_count'' [] [],
                         Call ''print'' [S ''Found'', g, c] [], find_wordnet, download_wordnet])
         | Inr d \<Rightarrow>
             prefix [Call ''torch.cuda.device_count'' [] [], Call ''psutil.cpu_count'' [] [],
                     Call ''print'' [S ''Found'', g, c] [], find_wordnet, download_wordnet,
                     get_imagenet_dp] (snd (imagenet_script env)))
      else imagenet_script env =
             (Inl e, [Call ''torch.cuda.device_count'' [] [], Call ''psutil.cpu_count'' [] [],
                      Call ''print'' [S ''Found'', g, c] [], find_wordnet])) \<and>
     (\<forall>n r. c = I n \<longrightarrow>
        env (Call ''ray.init'' []
               [(''num_gpus'', g), (''num_cpus'', I (min n 64)),
                (''ignore_reinit_error'', B True)]) = Inr r \<longrightarrow>
        (if isinstance_LookupError e then
           (case env download_wordnet of
              Inl e' \<Rightarrow>
                synthetic_method_script env args =
                  (Inl e', [Call ''print'' [I (worker_idx args), I (num_workers args)] [],
                            Call ''torch.cuda.device_count'' [] [],
                            Call ''psutil.cpu_count'' [] [],
                            Call ''print'' [S ''Found'', g, I (min n 64)] [],
                            Call ''ray.init'' []
                              [(''num_gpus'', g), (''num_cpus'', I (min n 64)),
                               (''ignore_reinit_error'', B True)],
                            find_wordnet, download_wordnet])
            | Inr d \<Rightarrow>
                prefix [Call ''print'' [I (worker_idx args), I (num_workers args)] [],
                        Call ''torch.cuda.device_count'' [] [], Call ''psutil.cpu_count'' [] [],
                        Call ''print'' [S ''Found'', g, I (min n 64)] [],
                        Call ''ray.init'' []
                          [(''num_gpus'', g), (''num_cpus'', I (min n 64)),
                           (''ignore_reinit_error'', B True)],
                        find_wordnet, download_wordnet, get_imagenet_dp]
                  (snd (synthetic_method_script env args)))
         else synthetic_method_script env args =
                (Inl e, [Call ''print'' [I (worker_idx args), I (num_workers args)] [],
                         Call ''torch.cuda.device_count'' [] [], Call ''psutil.cpu_count'' [] [],
                         Call ''print'' [S ''Found'', g, I (min n 64)] [],
                         Call ''ray.init'' []
                           [(''num_gpus'', g), (''num_cpus'', I (min n 64)),
                            (''ignore_reinit_error'', B True)],
                         find_wordnet])))"
proof (intro conjI allI impI)
  note im = imagenet_missing_corpus [where env = env and g = g and c = c and e = e, OF assms]
  show "if isinstance_LookupError e then
        (case env download_wordnet of
           Inl e' \<Rightarrow>
             imagenet_script env =
               (Inl e', [Call ''torch.cuda.device_count'' [] [], Call ''psutil.cpu_count'' [] [],
                         Call ''print'' [S ''Found'', g, c] [], find_wordnet, download_wordnet])
         | Inr d \<Rightarrow>
             prefix [Call ''torch.cuda.device_count'' [] [], Call ''psutil.cpu_count'' [] [],
                     Call ''print'' [S ''Found'', g, c] [], find_wordnet, download_wordnet,
                     get_imagenet_dp] (snd (imagenet_script env)))
      else imagenet_script env =
             (Inl e, [Call ''torch.cuda.device_count'' [] [], Call ''psutil.cpu_count'' [] [],
                      Call ''print'' [S ''Found'', g, c] [], find_wordnet])"
  proof (cases "isinstance_LookupError e")
    case False
    with im(1) [OF False] show ?thesis by (simp only: if_False)
  next
    case True
    show ?thesis
    proof (cases "env download_wordnet")
      case (Inl e')
      with True im(2) [OF True Inl] show ?thesis by (simp only: if_True sum.case)
    next
      case (Inr d)
      with True im(3) [OF True Inr] show ?thesis by (simp only: if_True sum.case)
    qed
  qed
next
  fix n r
  assume c: "c = I n"
    and ray: "env (Call ''ray.init'' []
               [(''num_gpus'', g), (''num_cpus'', I (min n 64)),
                (''ignore_reinit_error'', B True)]) = Inr r"
  note sm = synthetic_missing_corpus [where env = env and g = g and n = n and r = r and e = e
      and args = args, OF assms(1) assms(2) [unfolded c] ray assms(3)]
  show "if isinstance_LookupError e then
           (case env download_wordnet of
              Inl e' \<Rightarrow>
                synthetic_method_script env args =
                  (Inl e', [Call ''print'' [I (worker_idx args), I (num_workers args)] [],
                            Call ''torch.cuda.device_count'' [] [],
                            Call ''psutil.cpu_count'' [] [],
                            Call ''print'' [S ''Found'', g, I (min n 64)] [],
                            Call ''ray.init'' []
                              [(''num_gpus'', g), (''num_cpus'', I (min n 64)),
                               (''ignore_reinit_error'', B True)],
                            find_wordnet, download_wordnet])
            | Inr d \<Rightarrow>
                prefix [Call ''print'' [I (worker_idx args), I (num_workers args)] [],
                        Call ''torch.cuda.device_count'' [] [], Call ''psutil.cpu_count'' [] [],
                        Call ''print'' [S ''Found'', g, I (min n 64)] [],
                        Call ''ray.init'' []
                          [(''num_gpus'', g), (''num_cpus'', I (min n 64)),
                           (''ignore_reinit_error'', B True)],
                        find_wordnet, download_wordnet, get_imagenet_dp]
                  (snd (synthetic_method_script env args)))
         else synthetic_method_script env args =
                (Inl e, [Call ''print'' [I (worker_idx args), I (num_workers args)] [],
                         Call ''torch.cuda.device_count'' [] [], Call ''psutil.cpu_count'' [] [],
                         Call ''print'' [S ''Found'', g, I (min n 64)] [],
                         Call ''ray.init'' []
                           [(''num_gpus'', g), (''num_cpus'', I (min n 64)),
                            (''ignore_reinit_error'', B True)],
                         find_wordnet])"
  proof (cases "isinstance_LookupError e")
    case False
    with sm(1) [OF False] show ?thesis by (simp only: if_False)
  next
    case True
    show ?thesis
    proof (cases "env download_wordnet")
      case (Inl e')
      with True sm(2) [OF True Inl] show ?thesis by (simp only: if_True sum.case)
    next
      case (Inr d)
      with True sm(3) [OF True Inr] show ?thesis by (simp only: if_True sum.case)
    qed
  qed
qed

lemma missing_wordnet_outcomes:
  "missing_wordnet_env (Call ''torch.cuda.device_count'' [] []) = Inr (I 8)"
  "missing_wordnet_env (Call ''psutil.cpu_count'' [] []) = Inr (I 8)"
  "missing_wordnet_env find_wordnet = Inl LookupError"
  "missing_wordnet_env download_wordnet = Inr (H 0)"
  "missing_wordnet_env (Call ''ray.init'' []
     [(''num_gpus'', I 8), (''num_cpus'', I (min 8 64)), (''ignore_reinit_error'', B True)]) =
     Inr (H 0)"
  by (simp_all add: missing_wordnet_env_def ok_env_def find_wordnet_def download_wordnet_def)

theorem missing_corpus_is_downloaded_witness:
  "missing_wordnet_env find_wordnet = Inl LookupError \<and>
   isinstance_LookupError LookupError \<and>
   missing_wordnet_env download_wordnet = Inr (H 0) \<and>
   prefix [Call ''torch.cuda.device_count'' [] [], Call ''psutil.cpu_count'' [] [],
           Call ''print'' [S ''Found'', I 8, I 8] [], find_wordnet, download_wordnet,
           get_imagenet_dp] (snd (imagenet_script missing_wordnet_env)) \<and>
   prefix [Call ''print'' [I 0, I 2] [],
           Call ''torch.cuda.device_count'' [] [], Call ''psutil.cpu_count'' [] [],
           Call ''print'' [S ''Found'', I 8, I 8] [],
           Call ''ray.init'' []
             [(''num_gpus'', I 8), (''num_cpus'', I 8), (''ignore_reinit_error'', B True)],
           find_wordnet, download_wordnet, get_imagenet_dp]
     (snd (synthetic_method_script missing_wordnet_env
        \<lparr>worker_idx = 0, num_workers = 2, sanity = False, synthetic = True\<rparr>))"
  using missing_corpus_is_downloaded [of missing_wordnet_env "I 8" "I 8" LookupError
      "\<lparr>worker_idx = 0, num_workers = 2, sanity = False, synthetic = True\<rparr>",
      OF missing_wordnet_outcomes(1) missing_wordnet_outcomes(2) missing_wordnet_outcomes(3)]
    missing_wordnet_outcomes
  by simp

theorem missing_corpus_is_downloaded_counterexample:
  "missing_wordnet_env find_wordnet = Inl LookupError \<and>
   fst (imagenet_script missing_wordnet_env) = Inr () \<and>
   map call_name (snd (imagenet_script missing_wordnet_env)) =
     [''torch.cuda.device_count'', ''psutil.cpu_count'', ''print'',
      ''nltk.data.find'', ''nltk.download'',
      ''get_imagenet_dp'', ''split_dp'', ''get_wiki_words'', ''embed_words'',
      ''embed_images'', ''embed_images'', ''embed_images'', ''embed_images'',
      ''collect_settings'', ''collect_settings'', ''concat_settings'',
      ''load'', ''len'', ''np.random.choice'', ''lz.__getitem__'',
      ''train_settings'', ''score_settings'', ''tune.grid_search'', ''run_sdms'', ''score_sdms''] \<and>
   fst (synthetic_method_script missing_wordnet_env
     \<lparr>worker_idx = 0, num_workers = 2, sanity = False, synthetic = True\<rparr>) = Inr () \<and>
   map call_name (snd (synthetic_method_script missing_wordnet_env
     \<lparr>worker_idx = 0, num_workers = 2, sanity = False, synthetic = True\<rparr>)) =
     [''print'', ''torch.cuda.device_count'', ''psutil.cpu_count'', ''print'', ''ray.init'',
      ''nltk.data.find'', ''nltk.download'',
      ''get_imagenet_dp'', ''split_dp'', ''get_wiki_words'', ''embed_words'',
      ''embed_images'', ''embed_images'', ''embed_images'',
      ''collect_settings'', ''collect_settings'', ''concat_settings'',
      ''load'', ''len'', ''print'',
      ''synthetic_score_settings'', ''tune.grid_search'', ''run_sdms'', ''score_sdms'']"
  by (intro conjI; code_simp)

section \<open>The worker flags of the synthetic script\<close>

lemma ebind_print_call:
  "ebind (print_call xs) f = (fst (f ()), Call ''print'' xs [] # snd (f ()))"
  by (simp add: print_call_def ebind_ecall)

lemma synthetic_script_print_first:
  "synthetic_method_script env (args\<lparr>worker_idx := w, num_workers := n\<rparr>) =
     (fst (synthetic_method_script env args),
      Call ''print'' [I w, I n] [] # tl (snd (synthetic_method_script env args)))"
  unfolding synthetic_method_script_def
  by (subst (1 2 3) ebind_print_call) simp

lemma synthetic_script_hd:
  "hd (snd (synthetic_method_script env args)) =
     Call ''print'' [I (worker_idx args), I (num_workers args)] []"
  unfolding synthetic_method_script_def
  by (subst ebind_print_call) simp

lemma collaborator_calls_print:
  "collaborator_calls (Call ''print'' xs kw # tr) = collaborator_calls tr"
  by (simp add: collaborator_calls_def)

lemma collaborator_calls_tl:
  "call_name (hd tr) = ''print'' \<Longrightarrow> collaborator_calls (tl tr) = collaborator_calls tr"
  by (cases tr) (simp_all add: collaborator_calls_def)

text \<open>
  Claim C5. The script reads \<open>args.worker_idx\<close> and \<open>args.num_workers\<close> under the
  comment ``support for splitting up the job among multiple worker machines'', but it only
  prints them: whatever the two values, the outcome of the script is the same, the trace
  differs in the arguments of the first \<open>print\<close> only, and the calls to the collaborators
  (everything but \<open>print\<close>), with their arguments, are the same. No two values of the
  flags make the script call different collaborators.
\<close>

theorem worker_flags_only_printed:
  "fst (synthetic_method_script env (args\<lparr>worker_idx := w, num_workers := n\<rparr>)) =
     fst (synthetic_method_script env args) \<and>
   snd (synthetic_method_script env (args\<lparr>worker_idx := w, num_workers := n\<rparr>)) =
     Call ''print'' [I w, I n] [] # tl (snd (synthetic_method_script env args)) \<and>
   hd (snd (synthetic_method_script env args)) =
     Call ''print'' [I (worker_idx args), I (num_workers args)] [] \<and>
   collaborator_calls (snd (synthetic_method_script env (args\<lparr>worker_idx := w, num_workers := n\<rparr>))) =
     collaborator_calls (snd (synthetic_method_script env args))"
  using synthetic_script_print_first [where env = env and args = args and w = w and n = n]
    synthetic_script_hd [where env = env and args = args]
    collaborator_calls_tl [of "snd (synthetic_method_script env args)"]
  by (simp add: collaborator_calls_print)

theorem worker_flags_only_printed_counterexample:
  "collaborator_calls (snd (synthetic_method_script ok_env
     \<lparr>worker_idx = 0, num_workers = 2, sanity = False, synthetic = True\<rparr>)) =
   collaborator_calls (snd (synthetic_method_script ok_env
     \<lparr>worker_idx = 1, num_workers = 2, sanity = False, synthetic = True\<rparr>)) \<and>
   map call_name (collaborator_calls (snd (synthetic_method_script ok_env
     \<lparr>worker_idx = 1, num_workers = 2, sanity = False, synthetic = True\<rparr>))) =
     [''torch.cuda.device_count'', ''psutil.cpu_count'', ''ray.init'', ''nltk.data.find'',
      ''get_imagenet_dp'', ''split_dp'', ''get_wiki_words'', ''embed_words'',
      ''embed_images'', ''embed_images'', ''embed_images'',
      ''collect_settings'', ''collect_settings'', ''concat_settings'',
      ''load'', ''len'',
      ''synthetic_score_settings'', ''tune.grid_search'', ''run_sdms'', ''score_sdms'']"
  by (intro conjI; code_simp)

end
